theory Spec2Isabelle
  imports Complex_Main "HOL-Library.Sublist" "HOL-Library.Multiset"
begin

section \<open>Anomalyse backend: scoring pipeline of \<open>backend/main.py\<close>\<close>

text \<open>
  A shallow embedding of the request handlers \<open>require_token\<close>, \<open>predict_fraud\<close> and
  \<open>upload_csv\<close> of \<open>backend/main.py\<close> and of the table \<open>transactions\<close> of
  \<open>backend/models.py\<close>.

  Conventions of the embedding:
  \<^item> a Python \<open>float\<close> is a \<open>real\<close>: the arithmetic \<open>1.0 - p\<close> and \<open>x * 100\<close> of the
    risk mapping is exact. Where a float is truncated to an integer (\<open>int(risk)\<close> of the
    upload loop) the rounding of binary64 decides the result, and the product is rounded
    as IEEE 754 does (\<open>fl\<close>). A probability is a finite float; \<open>nan\<close> and \<open>inf\<close> are
    outside the type;
  \<^item> a \<open>datetime\<close> is an \<open>int\<close>, a point of a linear time axis; what \<open>pd.to_datetime\<close>
    returns is such a point or \<open>NaT\<close>;
  \<^item> a raised exception is the \<open>Inl\<close> of a sum; an \<open>HTTPException\<close> carries its status
    code and detail, any other exception that leaves a handler is \<open>Unhandled\<close>;
  \<^item> what the handlers import from modules outside \<open>main.py\<close> (\<open>joblib.load\<close>, the
    pickled pipeline, \<open>pandas\<close>, \<open>preprocess_data\<close>, \<open>decode_token\<close>, \<open>uuid4\<close>) and what
    the database decides (whether it is reachable, the order of rows of equal timestamp,
    the outcome of a commit) is a field of the record \<open>env\<close>;
  \<^item> the state threaded through the handlers is the committed content of the table, the
    rows written in a transaction that is still open, and three counters of calls
    (\<open>joblib.load\<close>, \<open>decode_token\<close>, \<open>pipeline.predict\<close>).
\<close>

subsection \<open>Exceptions\<close>

datatype py_exception =
    IndexError int nat
  | KeyError string
  | Exception string

datatype error =
    HTTPException nat string
  | Unhandled py_exception

function decimal :: "nat \<Rightarrow> string" where
  "decimal n =
     (if n < 10 then [char_of (48 + n)]
      else decimal (n div 10) @ [char_of (48 + n mod 10)])"
  by pat_completeness auto
termination
  by (relation "measure (\<lambda>n. n)") auto

declare decimal.simps [simp del]

definition decimal_int :: "int \<Rightarrow> string" where
  "decimal_int i = (if i < 0 then CHR ''-'' # decimal (nat (- i)) else decimal (nat i))"

text \<open>\<open>str(e)\<close>: numpy's text for an index out of bounds, the key for a \<open>KeyError\<close>.\<close>

fun str_exc :: "py_exception \<Rightarrow> string" where
  "str_exc (IndexError i n) =
     ''index '' @ decimal_int i @ '' is out of bounds for axis 0 with size '' @ decimal n"
| "str_exc (KeyError k) = [CHR 0x27] @ k @ [CHR 0x27]"
| "str_exc (Exception msg) = msg"

text \<open>\<open>xs[i]\<close> on a list or an array; an index from \<open>-len(xs)\<close> to \<open>-1\<close> counts from the end.\<close>

definition getitem :: "'a list \<Rightarrow> int \<Rightarrow> py_exception + 'a" where
  "getitem xs i =
     (if 0 \<le> i \<and> i < int (length xs) then Inr (xs ! nat i)
      else if i < 0 \<and> - int (length xs) \<le> i then Inr (xs ! nat (int (length xs) + i))
      else Inl (IndexError i (length xs)))"

text \<open>\<open>list(classes).index(v)\<close>, called only where \<open>v in classes\<close> holds.\<close>

fun index :: "'a list \<Rightarrow> 'a \<Rightarrow> nat" where
  "index [] v = 0"
| "index (x # xs) v = (if x = v then 0 else Suc (index xs v))"

subsection \<open>Strings\<close>

definition isspace :: "char \<Rightarrow> bool" where
  "isspace c = (c \<in> set [CHR 0x09, CHR 0x0A, CHR 0x0B, CHR 0x0C, CHR 0x0D, CHR 0x1C,
     CHR 0x1D, CHR 0x1E, CHR 0x1F, CHR 0x20, CHR 0x85, CHR 0xA0])"

definition strip :: "string \<Rightarrow> string" where
  "strip s = rev (dropWhile isspace (rev (dropWhile isspace s)))"

text \<open>\<open>s.replace(old, new)\<close> for a non-empty \<open>old\<close>: every occurrence, left to right.\<close>

function replace_ne :: "string \<Rightarrow> string \<Rightarrow> string \<Rightarrow> string" where
  "replace_ne [] old new = []"
| "replace_ne (c # cs) old new =
     (if old \<noteq> [] \<and> prefix old (c # cs)
      then new @ replace_ne (drop (length old) (c # cs)) old new
      else c # replace_ne cs old new)"
  by pat_completeness auto
termination
  by (relation "measure (\<lambda>(s, old, new). length s)") auto

definition replace :: "string \<Rightarrow> string \<Rightarrow> string \<Rightarrow> string" where
  "replace s old new =
     (if old = [] then new @ concat (map (\<lambda>c. c # new) s) else replace_ne s old new)"

definition startswith :: "string \<Rightarrow> string \<Rightarrow> bool" where
  "startswith s p = prefix p s"

definition endswith :: "string \<Rightarrow> string \<Rightarrow> bool" where
  "endswith s p = suffix p s"

text \<open>\<open>repr\<close> of a list of strings that need no escaping (the column names).\<close>

fun join_repr :: "string list \<Rightarrow> string" where
  "join_repr [] = []"
| "join_repr [x] = [CHR 0x27] @ x @ [CHR 0x27]"
| "join_repr (x # y # ys) = [CHR 0x27] @ x @ [CHR 0x27] @ '', '' @ join_repr (y # ys)"

definition repr_list :: "string list \<Rightarrow> string" where
  "repr_list xs = ''['' @ join_repr xs @ '']''"

subsection \<open>The table \<open>transactions\<close> and the state\<close>

type_synonym datetime = int

record TransactionModel =
  txn_id :: string
  timestamp :: datetime
  amount :: real
  user_id :: string
  city :: string
  category :: string
  risk_score :: int
  status :: string
  flag_type :: "string option"
  flag_reason :: "string option"
  is_training_data :: bool

record state =
  db :: "TransactionModel list"
  uncommitted :: "TransactionModel list"
  loads :: nat
  decodes :: nat
  predicts :: nat

subsection \<open>\<open>require_token\<close>\<close>

definition require_token :: "(string \<Rightarrow> bool) \<Rightarrow> string \<Rightarrow> state \<Rightarrow> (error + unit) \<times> state" where
  "require_token decode_token authorization s =
     (if \<not> startswith authorization ''Bearer ''
      then (Inl (HTTPException 401 ''Missing bearer token''), s)
      else
        let token = strip (replace authorization ''Bearer '' []) in
        if token = ''hardcoded-dev-token-for-deployment'' then (Inr (), s)
        else
          let s' = s\<lparr>decodes := decodes s + 1\<rparr> in
          if decode_token token then (Inr (), s')
          else (Inl (HTTPException 401 ''Invalid token''), s'))"

subsection \<open>Data frames, the pipeline and the environment\<close>

text \<open>
  A cell of a data frame is kept as pandas holds it; what the handlers do with a cell
  (\<open>pd.to_datetime\<close>, \<open>float\<close>, \<open>str\<close>) is taken from the environment. A row is a
  dictionary from column names to cells.
\<close>

datatype cell = Text string | Num real | Time datetime | IntC int

text \<open>What \<open>pd.to_datetime\<close> returns: a timestamp or \<open>NaT\<close>.\<close>

datatype pd_datetime = NaT | At datetime

record DataFrame =
  columns :: "string list"
  rows :: "(string \<rightharpoonup> cell) list"

type_synonym features = "real list"

text \<open>
  The unpickled pipeline: \<open>predict\<close>, \<open>predict_proba\<close> and \<open>classes_\<close>. \<open>Inl\<close> is the
  exception a call raises.
\<close>

record pipeline =
  predict :: "features list \<Rightarrow> py_exception + int list"
  predict_proba :: "features list \<Rightarrow> py_exception + real list list"
  classes :: "int list"

record UploadFile =
  filename :: string
  file_content :: string

record env =
  model_exists :: bool
  joblib_load :: "pipeline option"
  to_datetime :: "cell \<Rightarrow> py_exception + pd_datetime"
  py_float :: "cell \<Rightarrow> py_exception + real"
  py_str :: "cell \<Rightarrow> string"
  read_csv :: "string \<Rightarrow> DataFrame option"
  preprocess_data :: "DataFrame \<Rightarrow> py_exception + features list"
  decode_token :: "string \<Rightarrow> bool"
  uuid4 :: "nat \<Rightarrow> string"
  storage_error :: "py_exception option"
  tie_order :: "TransactionModel \<Rightarrow> int"
  bind_error :: py_exception
  commit_error :: "(py_exception \<times> nat) option"

subsection \<open>The risk mapping of \<open>predict_fraud\<close> (lines 280 to 295)\<close>

record PredictionResponse =
  is_fraud :: bool
  resp_risk_score :: real
  resp_status :: string

definition fraud_prob_single :: "int list \<Rightarrow> real list \<Rightarrow> py_exception + real" where
  "fraud_prob_single cls probs =
     (if 0 \<in> set cls
      then (case getitem probs (int (index cls 0)) of
              Inl ex \<Rightarrow> Inl ex
            | Inr p \<Rightarrow> Inr (1 - p))
      else Inr 1)"

definition risk_map :: "int \<Rightarrow> real list \<Rightarrow> int list \<Rightarrow> py_exception + PredictionResponse" where
  "risk_map pred probs cls =
     (case fraud_prob_single cls probs of
        Inl ex \<Rightarrow> Inl ex
      | Inr fraud_prob \<Rightarrow>
          let risk = fraud_prob * 100;
              fraud = (pred \<noteq> 0);
              st = (if fraud then ''Suspicious'' else ''Safe'')
          in Inr \<lparr>is_fraud = fraud, resp_risk_score = risk, resp_status = st\<rparr>)"

text \<open>The \<open>try\<close> block of lines 275 to 298 on the last processed row.\<close>

definition predict_block :: "pipeline \<Rightarrow> features \<Rightarrow> py_exception + PredictionResponse" where
  "predict_block pl last_row =
     (case predict pl [last_row] of
        Inl ex \<Rightarrow> Inl ex
      | Inr preds \<Rightarrow>
     (case getitem preds 0 of
        Inl ex \<Rightarrow> Inl ex
      | Inr pred \<Rightarrow>
     (case predict_proba pl [last_row] of
        Inl ex \<Rightarrow> Inl ex
      | Inr probas \<Rightarrow>
     (case getitem probas 0 of
        Inl ex \<Rightarrow> Inl ex
      | Inr probs \<Rightarrow> risk_map pred probs (classes pl)))))"

subsection \<open>The history window of \<open>predict_fraud\<close> (lines 232 to 264)\<close>

record PredictionRequest =
  req_timestamp :: string
  req_amount :: real
  req_user_id :: string
  req_city :: string
  req_category :: string

text \<open>
  The rows the query selects: the user's rows strictly before \<open>current_ts\<close>, ordered by
  timestamp descending, at most 50. The statement names no second sort key: the order of
  rows of equal timestamp, and which of them the limit keeps, is the database's choice,
  the ranking \<open>tie\<close>.
\<close>

definition history_rows ::
  "(TransactionModel \<Rightarrow> int) \<Rightarrow> TransactionModel list \<Rightarrow> string \<Rightarrow> datetime
     \<Rightarrow> TransactionModel list" where
  "history_rows tie tbl uid current_ts =
     take 50 (sort_key (\<lambda>r. - timestamp r) (sort_key tie
       (filter (\<lambda>r. user_id r = uid \<and> timestamp r < current_ts) tbl)))"

text \<open>
  The execution of the query (\<open>db.scalars(...).all()\<close>, outside every \<open>try\<close>): it raises
  where the database is unreachable, and where the bound timestamp is \<open>NaT\<close>, which has
  no database value.
\<close>

definition select_history ::
  "env \<Rightarrow> TransactionModel list \<Rightarrow> string \<Rightarrow> pd_datetime
     \<Rightarrow> py_exception + TransactionModel list" where
  "select_history e tbl uid current_ts =
     (case storage_error e of
        Some ex \<Rightarrow> Inl ex
      | None \<Rightarrow>
          (case current_ts of
             NaT \<Rightarrow> Inl (bind_error e)
           | At ts \<Rightarrow> Inr (history_rows (tie_order e) tbl uid ts)))"

text \<open>The dictionaries appended to \<open>history_data\<close>.\<close>

record hist_row =
  Timestamp :: datetime
  UserID :: string
  Amount :: real
  City :: string
  Category :: string
  Fraud_Type :: int

definition history_dict :: "TransactionModel \<Rightarrow> hist_row" where
  "history_dict r =
     \<lparr>Timestamp = timestamp r, UserID = user_id r, Amount = amount r, City = city r,
      Category = category r, Fraud_Type = 0\<rparr>"

definition current_data :: "PredictionRequest \<Rightarrow> datetime \<Rightarrow> hist_row" where
  "current_data txn current_ts =
     \<lparr>Timestamp = current_ts, UserID = req_user_id txn, Amount = req_amount txn,
      City = req_city txn, Category = req_category txn, Fraud_Type = 0\<rparr>"

text \<open>\<open>history_data\<close> after the loop over the selected rows and the final \<open>append\<close>.\<close>

definition history_data :: "TransactionModel list \<Rightarrow> PredictionRequest \<Rightarrow> datetime \<Rightarrow> hist_row list" where
  "history_data selected txn current_ts =
     map history_dict selected @ [current_data txn current_ts]"

text \<open>\<open>pd.DataFrame(history_data)\<close>: the keys of the dictionaries are the columns.\<close>

definition dict_of :: "hist_row \<Rightarrow> (string \<rightharpoonup> cell)" where
  "dict_of h =
     [''Timestamp'' \<mapsto> Time (Timestamp h), ''UserID'' \<mapsto> Text (UserID h),
      ''Amount'' \<mapsto> Num (Amount h), ''City'' \<mapsto> Text (City h),
      ''Category'' \<mapsto> Text (Category h), ''Fraud_Type'' \<mapsto> IntC (Fraud_Type h)]"

definition DataFrame_of :: "hist_row list \<Rightarrow> DataFrame" where
  "DataFrame_of hs =
     \<lparr>columns = [''Timestamp'', ''UserID'', ''Amount'', ''City'', ''Category'', ''Fraud_Type''],
      rows = map dict_of hs\<rparr>"

subsection \<open>\<open>predict_fraud\<close>\<close>

text \<open>
  \<open>df_processed.iloc[[-1]]\<close> raises on a frame without rows. In \<open>predict_fraud\<close> the
  branch for \<open>NaT\<close> after the query is never taken (the query has raised); it only makes
  the case distinction complete.
\<close>

definition iloc_last :: "features list \<Rightarrow> py_exception + features" where
  "iloc_last fs = getitem fs (- 1)"

definition predict_fraud :: "env \<Rightarrow> PredictionRequest \<Rightarrow> state \<Rightarrow> (error + PredictionResponse) \<times> state" where
  "predict_fraud e txn s =
     (if \<not> model_exists e
      then (Inl (HTTPException 500 ''Model not found. Please train using train_model.py first.''), s)
      else
        let s1 = s\<lparr>loads := loads s + 1\<rparr> in
        (case joblib_load e of
           None \<Rightarrow> (Inl (HTTPException 500 ''Failed to load model''), s1)
         | Some pl \<Rightarrow>
        (case to_datetime e (Text (req_timestamp txn)) of
           Inl ex \<Rightarrow> (Inl (HTTPException 400 ''Invalid timestamp format''), s1)
         | Inr current_ts \<Rightarrow>
        (case select_history e (db s1) (req_user_id txn) current_ts of
           Inl ex \<Rightarrow> (Inl (Unhandled ex), s1)
         | Inr selected \<Rightarrow>
        (case current_ts of
           NaT \<Rightarrow> (Inl (Unhandled (bind_error e)), s1)
         | At ts \<Rightarrow>
        (case preprocess_data e (DataFrame_of (history_data selected txn ts)) of
           Inl ex \<Rightarrow> (Inl (HTTPException 500 (''Preprocessing failed: '' @ str_exc ex)), s1)
         | Inr df_processed \<Rightarrow>
        (case iloc_last df_processed of
           Inl ex \<Rightarrow> (Inl (Unhandled ex), s1)
         | Inr last_row \<Rightarrow>
             let s2 = s1\<lparr>predicts := predicts s1 + 1\<rparr> in
             (case predict_block pl last_row of
                Inl ex \<Rightarrow> (Inl (HTTPException 500 (''Prediction failed: '' @ str_exc ex)), s2)
              | Inr resp \<Rightarrow> (Inr resp, s2)))))))))"

subsection \<open>\<open>upload_csv\<close>\<close>

definition required_cols :: "string list" where
  "required_cols = [''Timestamp'', ''UserID'', ''Amount'', ''City'', ''Category'']"

definition missing_cols :: "DataFrame \<Rightarrow> string list" where
  "missing_cols df = filter (\<lambda>c. c \<notin> set (columns df)) required_cols"

text \<open>\<open>df["Fraud_Type"] = 0\<close> where the column is absent.\<close>

definition add_fraud_type :: "DataFrame \<Rightarrow> DataFrame" where
  "add_fraud_type df =
     (if ''Fraud_Type'' \<in> set (columns df) then df
      else df\<lparr>columns := columns df @ [''Fraud_Type''],
              rows := map (\<lambda>r. r(''Fraud_Type'' \<mapsto> IntC 0)) (rows df)\<rparr>)"

text \<open>\<open>df.iloc[i][c]\<close>.\<close>

definition cell_at :: "DataFrame \<Rightarrow> nat \<Rightarrow> string \<Rightarrow> py_exception + cell" where
  "cell_at df i c =
     (case getitem (rows df) (int i) of
        Inl ex \<Rightarrow> Inl ex
      | Inr r \<Rightarrow> (case r c of None \<Rightarrow> Inl (KeyError c) | Some v \<Rightarrow> Inr v))"

text \<open>The \<open>try\<close> block of lines 336 to 342.\<close>

definition normal_idx_of :: "int list \<Rightarrow> int" where
  "normal_idx_of cls = (if 0 \<in> set cls then int (index cls 0) else - 1)"

definition model_block ::
  "pipeline \<Rightarrow> features list \<Rightarrow> py_exception + (int list \<times> real list list \<times> int)" where
  "model_block pl df_processed =
     (case predict pl df_processed of
        Inl ex \<Rightarrow> Inl ex
      | Inr preds \<Rightarrow>
     (case predict_proba pl df_processed of
        Inl ex \<Rightarrow> Inl ex
      | Inr probs \<Rightarrow> Inr (preds, probs, normal_idx_of (classes pl))))"

text \<open>The risk mapping of the loop body (lines 346 to 352): \<open>risk\<close> and \<open>status\<close>.\<close>

definition fraud_prob_row :: "real list list \<Rightarrow> int \<Rightarrow> nat \<Rightarrow> py_exception + real" where
  "fraud_prob_row probs normal_idx i =
     (if normal_idx \<noteq> - 1
      then (case getitem probs (int i) of
              Inl ex \<Rightarrow> Inl ex
            | Inr pr \<Rightarrow>
                (case getitem pr normal_idx of
                   Inl ex \<Rightarrow> Inl ex
                 | Inr p \<Rightarrow> Inr (1 - p)))
      else Inr 1)"

definition row_risk :: "real list list \<Rightarrow> int \<Rightarrow> nat \<Rightarrow> int \<Rightarrow> py_exception + (real \<times> string)" where
  "row_risk probs normal_idx i pred =
     (case fraud_prob_row probs normal_idx i of
        Inl ex \<Rightarrow> Inl ex
      | Inr fraud_prob \<Rightarrow>
          Inr (fraud_prob * 100, if pred \<noteq> 0 then ''Suspicious'' else ''Safe''))"

text \<open>\<open>int(x)\<close> of a finite float truncates towards zero.\<close>

definition py_int :: "real \<Rightarrow> int" where
  "py_int x = (if 0 \<le> x then \<lfloor>x\<rfloor> else \<lceil>x\<rceil>)"

text \<open>
  Rounding to binary64, nearest with ties to even: 53 significant bits, the least unit
  \<open>2 ^ -1074\<close>; a result of magnitude \<open>2 ^ 1024\<close> or more is \<open>inf\<close>.
\<close>

definition round_half_even :: "real \<Rightarrow> int" where
  "round_half_even x =
     (if x - of_int \<lfloor>x\<rfloor> < 1 / 2 then \<lfloor>x\<rfloor>
      else if 1 / 2 < x - of_int \<lfloor>x\<rfloor> then \<lfloor>x\<rfloor> + 1
      else if even \<lfloor>x\<rfloor> then \<lfloor>x\<rfloor> else \<lfloor>x\<rfloor> + 1)"

definition ulp :: "real \<Rightarrow> real" where
  "ulp x = 2 powr of_int (max (\<lfloor>log 2 \<bar>x\<bar>\<rfloor> - 52) (- 1074))"

definition fl :: "real \<Rightarrow> real" where
  "fl x = (if x = 0 then 0 else of_int (round_half_even (x / ulp x)) * ulp x)"

text \<open>
  \<open>int(risk)\<close> of the upload loop, with \<open>risk = fraud_prob * 100\<close> and
  \<open>fraud_prob = 1.0 - p\<close> computed in binary64: \<open>int\<close> raises on \<open>inf\<close>.
\<close>

definition int_of_risk :: "real \<Rightarrow> py_exception + int" where
  "int_of_risk fraud_prob =
     (if 2 ^ 1024 \<le> \<bar>fl (fl fraud_prob * 100)\<bar>
      then Inl (Exception ''cannot convert float infinity to integer'')
      else Inr (py_int (fl (fl fraud_prob * 100))))"

definition stored_risk :: "real list list \<Rightarrow> int \<Rightarrow> nat \<Rightarrow> py_exception + int" where
  "stored_risk probs normal_idx i =
     (case fraud_prob_row probs normal_idx i of
        Inl ex \<Rightarrow> Inl ex
      | Inr fraud_prob \<Rightarrow> int_of_risk fraud_prob)"

text \<open>
  The object built for row \<open>i\<close> (lines 354 to 364). \<open>pd.to_datetime(...).to_pydatetime()\<close>
  of \<open>NaT\<close> is \<open>NaT\<close>: the object is built, and the database cannot bind its timestamp.
\<close>

datatype new_txn = Bound TransactionModel | Unbindable

definition make_txn ::
  "env \<Rightarrow> DataFrame \<Rightarrow> real list list \<Rightarrow> int \<Rightarrow> nat \<Rightarrow> int \<Rightarrow> py_exception + new_txn" where
  "make_txn e df probs normal_idx i pred =
     (case row_risk probs normal_idx i pred of
        Inl ex \<Rightarrow> Inl ex
      | Inr rs \<Rightarrow>
     (case cell_at df i ''Timestamp'' of
        Inl ex \<Rightarrow> Inl ex
      | Inr tc \<Rightarrow>
     (case to_datetime e tc of
        Inl ex \<Rightarrow> Inl ex
      | Inr ts \<Rightarrow>
     (case cell_at df i ''Amount'' of
        Inl ex \<Rightarrow> Inl ex
      | Inr ac \<Rightarrow>
     (case py_float e ac of
        Inl ex \<Rightarrow> Inl ex
      | Inr am \<Rightarrow>
     (case cell_at df i ''UserID'' of
        Inl ex \<Rightarrow> Inl ex
      | Inr uc \<Rightarrow>
     (case cell_at df i ''City'' of
        Inl ex \<Rightarrow> Inl ex
      | Inr cc \<Rightarrow>
     (case cell_at df i ''Category'' of
        Inl ex \<Rightarrow> Inl ex
      | Inr gc \<Rightarrow>
     (case stored_risk probs normal_idx i of
        Inl ex \<Rightarrow> Inl ex
      | Inr k \<Rightarrow>
          Inr (case ts of
                 NaT \<Rightarrow> Unbindable
               | At t \<Rightarrow>
                   Bound \<lparr>txn_id = uuid4 e i, timestamp = t, amount = am,
                     user_id = py_str e uc, city = py_str e cc, category = py_str e gc,
                     risk_score = k, status = snd rs, flag_type = None, flag_reason = None,
                     is_training_data = False\<rparr>))))))))))"

text \<open>The loop \<open>for i, pred in enumerate(preds)\<close>, from index \<open>i\<close> on.\<close>

fun score_rows ::
  "env \<Rightarrow> DataFrame \<Rightarrow> real list list \<Rightarrow> int \<Rightarrow> nat \<Rightarrow> int list
     \<Rightarrow> py_exception + new_txn list" where
  "score_rows e df probs normal_idx i [] = Inr []"
| "score_rows e df probs normal_idx i (pred # preds) =
     (case make_txn e df probs normal_idx i pred of
        Inl ex \<Rightarrow> Inl ex
      | Inr t \<Rightarrow>
          (case score_rows e df probs normal_idx (Suc i) preds of
             Inl ex \<Rightarrow> Inl ex
           | Inr ts \<Rightarrow> Inr (t # ts)))"

text \<open>
  The database session of one request. \<open>add_all\<close> queues the objects. \<open>commit\<close> writes
  the queue, in order, into the open transaction and commits it; it raises where an
  object cannot be bound, or where the database raises (\<open>commit_error\<close>: the exception and
  the number of rows written before it), and then the rows written so far stay in the
  open transaction. \<open>rollback\<close> discards the open transaction and the queue.
\<close>

record session =
  committed :: "TransactionModel list"
  written :: "TransactionModel list"
  pending :: "new_txn list"

definition add_all :: "new_txn list \<Rightarrow> session \<Rightarrow> session" where
  "add_all ts ss = ss\<lparr>pending := pending ss @ ts\<rparr>"

text \<open>The objects before the first one that cannot be bound.\<close>

fun bound_prefix :: "new_txn list \<Rightarrow> TransactionModel list" where
  "bound_prefix [] = []"
| "bound_prefix (Bound t # xs) = t # bound_prefix xs"
| "bound_prefix (Unbindable # xs) = []"

definition commit :: "env \<Rightarrow> session \<Rightarrow> (py_exception + unit) \<times> session" where
  "commit e ss =
     (let ws = bound_prefix (pending ss) in
      if length ws < length (pending ss) \<and>
         (case commit_error e of None \<Rightarrow> True | Some (ex, k) \<Rightarrow> length ws \<le> k)
      then (Inl (bind_error e),
            ss\<lparr>written := written ss @ ws, pending := drop (length ws) (pending ss)\<rparr>)
      else
        (case commit_error e of
           Some (ex, k) \<Rightarrow>
             (Inl ex, ss\<lparr>written := written ss @ take k ws, pending := drop k (pending ss)\<rparr>)
         | None \<Rightarrow>
             (Inr (), \<lparr>committed = committed ss @ written ss @ ws, written = [], pending = []\<rparr>)))"

definition rollback :: "session \<Rightarrow> session" where
  "rollback ss = ss\<lparr>written := [], pending := []\<rparr>"

text \<open>The bulk save of lines 366 to 372; the result carries the session afterwards.\<close>

definition bulk_save ::
  "env \<Rightarrow> new_txn list \<Rightarrow> TransactionModel list \<Rightarrow> (error + unit) \<times> session" where
  "bulk_save e new_txns tbl =
     (case commit e (add_all new_txns \<lparr>committed = tbl, written = [], pending = []\<rparr>) of
        (Inl ex, ss) \<Rightarrow>
          (Inl (HTTPException 500 (''Database error: '' @ str_exc ex)), rollback ss)
      | (Inr u, ss) \<Rightarrow> (Inr (), ss))"

record UploadResponse =
  success :: bool
  message :: string
  rowsProcessed :: nat

definition upload_csv :: "env \<Rightarrow> UploadFile \<Rightarrow> state \<Rightarrow> (error + UploadResponse) \<times> state" where
  "upload_csv e f s =
     (if \<not> endswith (filename f) ''.csv''
      then (Inl (HTTPException 400 ''Only CSV files are supported''), s)
      else if \<not> model_exists e
      then (Inl (HTTPException 400 ''Model not found. Please train using model/train.py first.''), s)
      else
        let s1 = s\<lparr>loads := loads s + 1\<rparr> in
        (case joblib_load e of
           None \<Rightarrow> (Inl (HTTPException 500 ''Failed to load model''), s1)
         | Some pl \<Rightarrow>
        (case read_csv e (file_content f) of
           None \<Rightarrow> (Inl (HTTPException 400 ''Unable to read CSV''), s1)
         | Some df \<Rightarrow>
        (if missing_cols df \<noteq> []
         then (Inl (HTTPException 400 (''Missing columns: '' @ repr_list (missing_cols df))), s1)
         else
        (case preprocess_data e (add_fraud_type df) of
           Inl ex \<Rightarrow> (Inl (HTTPException 500 (''Preprocessing failed: '' @ str_exc ex)), s1)
         | Inr df_processed \<Rightarrow>
             let s2 = s1\<lparr>predicts := predicts s1 + 1\<rparr> in
        (case model_block pl df_processed of
           Inl ex \<Rightarrow> (Inl (HTTPException 500 (''Model prediction failed: '' @ str_exc ex)), s2)
         | Inr m \<Rightarrow>
        (case score_rows e (add_fraud_type df) (fst (snd m)) (snd (snd m)) 0 (fst m) of
           Inl ex \<Rightarrow> (Inl (Unhandled ex), s2)
         | Inr new_txns \<Rightarrow>
        (case bulk_save e new_txns (db s2) of
           (Inl err, ss) \<Rightarrow> (Inl err, s2\<lparr>db := committed ss, uncommitted := written ss\<rparr>)
         | (Inr u, ss) \<Rightarrow>
             (Inr \<lparr>success = True,
                   message = ''File processed and transactions stored.'',
                   rowsProcessed = length new_txns\<rparr>,
              s2\<lparr>db := committed ss, uncommitted := written ss\<rparr>)))))))))"

subsection \<open>The routes\<close>

text \<open>
  \<open>POST /predict\<close> is declared with the database dependency only; \<open>POST /upload\<close>
  also depends on \<open>require_token\<close>, which runs before the handler body. The first
  argument of a request is its \<open>Authorization\<close> header, empty when the header is absent.
\<close>

datatype request = Predict string PredictionRequest | Upload string UploadFile

datatype response = Prediction PredictionResponse | Uploaded UploadResponse

definition post_predict ::
  "env \<Rightarrow> string \<Rightarrow> PredictionRequest \<Rightarrow> state \<Rightarrow> (error + PredictionResponse) \<times> state" where
  "post_predict e authorization txn s = predict_fraud e txn s"

definition post_upload ::
  "env \<Rightarrow> string \<Rightarrow> UploadFile \<Rightarrow> state \<Rightarrow> (error + UploadResponse) \<times> state" where
  "post_upload e authorization f s =
     (case require_token (decode_token e) authorization s of
        (Inl err, s') \<Rightarrow> (Inl err, s')
      | (Inr u, s') \<Rightarrow> upload_csv e f s')"

fun handle :: "env \<Rightarrow> request \<Rightarrow> state \<Rightarrow> (error + response) \<times> state" where
  "handle e (Predict authorization txn) s =
     (case post_predict e authorization txn s of
        (Inl err, s') \<Rightarrow> (Inl err, s')
      | (Inr r, s') \<Rightarrow> (Inr (Prediction r), s'))"
| "handle e (Upload authorization f) s =
     (case post_upload e authorization f s of
        (Inl err, s') \<Rightarrow> (Inl err, s')
      | (Inr r, s') \<Rightarrow> (Inr (Uploaded r), s'))"

text \<open>A process serving a sequence of requests, each in the environment it meets.\<close>

fun serve :: "(env \<times> request) list \<Rightarrow> state \<Rightarrow> (error + response) list \<times> state" where
  "serve [] s = ([], s)"
| "serve (er # ers) s =
     (let (r, s') = handle (fst er) (snd er) s;
          (rs, s'') = serve ers s'
      in (r # rs, s''))"

subsection \<open>Predicates used in the statements\<close>

text \<open>The header values that \<open>require_token\<close> lets through, read off its branches.\<close>

definition token_accepted :: "(string \<Rightarrow> bool) \<Rightarrow> string \<Rightarrow> bool" where
  "token_accepted dt authorization =
     (startswith authorization ''Bearer '' \<and>
      (strip (replace authorization ''Bearer '' []) = ''hardcoded-dev-token-for-deployment'' \<or>
       dt (strip (replace authorization ''Bearer '' []))))"

text \<open>A request that gets as far as the call of \<open>joblib.load\<close>.\<close>

fun reaches_load :: "env \<times> request \<Rightarrow> bool" where
  "reaches_load (e, Predict authorization txn) = model_exists e"
| "reaches_load (e, Upload authorization f) =
     (token_accepted (decode_token e) authorization \<and> endswith (filename f) ''.csv'' \<and>
      model_exists e)"

text \<open>
  A valid row of a frame: the five required cells are present, the timestamp cell
  converts to a datetime (not \<open>NaT\<close>) and the amount cell to a float.
\<close>

definition valid_row :: "env \<Rightarrow> (string \<rightharpoonup> cell) \<Rightarrow> bool" where
  "valid_row e r =
     (case r ''Timestamp'' of
        None \<Rightarrow> False
      | Some tc \<Rightarrow>
     (case r ''Amount'' of
        None \<Rightarrow> False
      | Some ac \<Rightarrow>
          (\<exists>t. to_datetime e tc = Inr (At t)) \<and> \<not> isl (py_float e ac) \<and>
          r ''UserID'' \<noteq> None \<and> r ''City'' \<noteq> None \<and> r ''Category'' \<noteq> None))"

text \<open>Descending order of a list of timestamps.\<close>

definition descending :: "datetime list \<Rightarrow> bool" where
  "descending ts = sorted_wrt (\<lambda>a b. b \<le> a) ts"



subsection \<open>A small environment for evaluating the handlers\<close>

text \<open>
  A pipeline that flags amounts above 11, and a preprocessor that reads the frame: the
  features of a row are its amount and the number of rows of the frame; it fails on a row
  whose amount or timestamp does not convert.
\<close>

definition ex_pipeline :: pipeline where
  "ex_pipeline =
     \<lparr>predict = (\<lambda>fs. Inr (map (\<lambda>f. case f of [] \<Rightarrow> 0 | a # x \<Rightarrow> if 11 < a then 1 else 0) fs)),
      predict_proba =
        (\<lambda>fs. Inr (map (\<lambda>f. case f of
                               [] \<Rightarrow> [1 / 2, 1 / 2]
                             | a # x \<Rightarrow> if 11 < a then [1 / 4, 3 / 4] else [7 / 8, 1 / 8]) fs)),
      classes = [0, 1]\<rparr>"

definition ex_to_datetime :: "cell \<Rightarrow> py_exception + pd_datetime" where
  "ex_to_datetime c =
     (case c of
        Time t \<Rightarrow> Inr (At t)
      | Text x \<Rightarrow>
          (if x = [] then Inr NaT
           else if x = ''2024-01-01'' then Inr (At 1)
           else if x = ''2024-01-02'' then Inr (At 2)
           else if x = ''2024-01-03'' then Inr (At 3)
           else Inl (Exception ''Unknown datetime string format''))
      | Num x \<Rightarrow> Inl (Exception ''Unknown datetime string format'')
      | IntC n \<Rightarrow> Inr (At n))"

definition ex_float :: "cell \<Rightarrow> py_exception + real" where
  "ex_float c =
     (case c of
        Num x \<Rightarrow> Inr x
      | IntC n \<Rightarrow> Inr (real_of_int n)
      | Text x \<Rightarrow> Inl (Exception ''could not convert string to float'')
      | Time t \<Rightarrow> Inl (Exception ''float() argument must be a string or a real number''))"

definition ex_str :: "cell \<Rightarrow> string" where
  "ex_str c =
     (case c of
        Text x \<Rightarrow> x
      | Num x \<Rightarrow> decimal_int \<lfloor>x\<rfloor>
      | Time t \<Rightarrow> decimal_int t
      | IntC n \<Rightarrow> decimal_int n)"

definition ex_amount :: "(string \<rightharpoonup> cell) \<Rightarrow> real option" where
  "ex_amount r =
     (case r ''Amount'' of
        None \<Rightarrow> None
      | Some c \<Rightarrow> (case ex_float c of Inl ex \<Rightarrow> None | Inr a \<Rightarrow> Some a))"

definition ex_time :: "(string \<rightharpoonup> cell) \<Rightarrow> datetime option" where
  "ex_time r =
     (case r ''Timestamp'' of
        None \<Rightarrow> None
      | Some c \<Rightarrow>
          (case ex_to_datetime c of Inl ex \<Rightarrow> None | Inr NaT \<Rightarrow> None | Inr (At t) \<Rightarrow> Some t))"

definition ex_preprocess :: "DataFrame \<Rightarrow> py_exception + features list" where
  "ex_preprocess df =
     (if list_all (\<lambda>r. ex_amount r \<noteq> None \<and> ex_time r \<noteq> None) (rows df)
      then Inr (map (\<lambda>r. case ex_amount r of
                            None \<Rightarrow> []
                          | Some a \<Rightarrow> [a, real (length (rows df))]) (rows df))
      else Inl (Exception ''malformed row''))"

definition ex_df :: DataFrame where
  "ex_df =
     \<lparr>columns = [''Timestamp'', ''UserID'', ''Amount'', ''City'', ''Category''],
      rows =
        [[''Timestamp'' \<mapsto> Text ''2024-01-01'', ''UserID'' \<mapsto> Text ''u1'', ''Amount'' \<mapsto> Num 10,
          ''City'' \<mapsto> Text ''Pune'', ''Category'' \<mapsto> Text ''Food''],
         [''Timestamp'' \<mapsto> Text ''2024-01-02'', ''UserID'' \<mapsto> Text ''u2'', ''Amount'' \<mapsto> Num 20,
          ''City'' \<mapsto> Text ''Delhi'', ''Category'' \<mapsto> Text ''Travel'']]\<rparr>"

text \<open>A frame without the column \<open>City\<close>.\<close>

definition ex_df_no_city :: DataFrame where
  "ex_df_no_city =
     \<lparr>columns = [''Timestamp'', ''UserID'', ''Amount'', ''Category''],
      rows =
        [[''Timestamp'' \<mapsto> Text ''2024-01-01'', ''UserID'' \<mapsto> Text ''u1'', ''Amount'' \<mapsto> Num 10,
          ''Category'' \<mapsto> Text ''Food'']]\<rparr>"

definition ex_env :: env where
  "ex_env =
     \<lparr>model_exists = True,
      joblib_load = Some ex_pipeline,
      to_datetime = ex_to_datetime,
      py_float = ex_float,
      py_str = ex_str,
      read_csv = (\<lambda>x. if x = ''no city'' then Some ex_df_no_city else Some ex_df),
      preprocess_data = ex_preprocess,
      decode_token = (\<lambda>t. False),
      uuid4 = (\<lambda>i. ''id-'' @ decimal i),
      storage_error = None,
      tie_order = (\<lambda>r. 0),
      bind_error = Exception ''NaT cannot be bound'',
      commit_error = None\<rparr>"

definition ex_txn :: "string \<Rightarrow> datetime \<Rightarrow> TransactionModel" where
  "ex_txn uid t =
     \<lparr>txn_id = ''t'' @ decimal_int t, timestamp = t, amount = 5, user_id = uid, city = ''Pune'',
      category = ''Food'', risk_score = 0, status = ''Safe'', flag_type = None,
      flag_reason = None, is_training_data = False\<rparr>"

definition ex_req :: PredictionRequest where
  "ex_req =
     \<lparr>req_timestamp = ''2024-01-03'', req_amount = 12, req_user_id = ''u1'',
      req_city = ''Pune'', req_category = ''Food''\<rparr>"


definition ex_file :: UploadFile where
  "ex_file = \<lparr>filename = ''batch.csv'', file_content = ''rows''\<rparr>"

definition ex_state :: state where
  "ex_state =
     \<lparr>db = [ex_txn ''u1'' 1, ex_txn ''u2'' 1, ex_txn ''u1'' 2, ex_txn ''u3'' 5],
      uncommitted = [], loads = 0, decodes = 0, predicts = 0\<rparr>"

definition ex_empty_state :: state where
  "ex_empty_state = \<lparr>db = [], uncommitted = [], loads = 0, decodes = 0, predicts = 0\<rparr>"

section \<open>Properties\<close>

subsection \<open>Auxiliary facts\<close>

lemma replace_bearer:
  "replace ''Bearer hardcoded-dev-token-for-deployment'' ''Bearer '' [] =
     ''hardcoded-dev-token-for-deployment''"
  by (simp add: replace_def)

lemma strip_token:
  "strip ''hardcoded-dev-token-for-deployment'' = ''hardcoded-dev-token-for-deployment''"
  by (simp add: strip_def isspace_def)

lemma index_nth: "v \<in> set xs \<Longrightarrow> xs ! index xs v = v \<and> index xs v < length xs"
  by (induction xs) auto

subsection \<open>Rounding to binary64\<close>

lemma round_half_even_of_int: "round_half_even (of_int m) = m"
  by (simp add: round_half_even_def)

lemma round_half_even_error: "\<bar>of_int (round_half_even y) - y\<bar> \<le> 1 / 2"
  unfolding round_half_even_def by (auto simp add: abs_le_iff)

lemma floor_log2_eq:
  assumes "2 powr of_int e \<le> x" and "x < 2 powr of_int (e + 1)"
  shows "\<lfloor>log 2 x\<rfloor> = e"
proof -
  have "0 < x"
    using assms(1) by (rule less_le_trans [rotated]) simp
  then show ?thesis
    using assms by (simp add: floor_log_eq_powr_iff)
qed

lemma ulp_eq:
  assumes "2 powr of_int e \<le> \<bar>x\<bar>" and "\<bar>x\<bar> < 2 powr of_int (e + 1)" and "- 1022 \<le> e"
  shows "ulp x = 2 powr of_int (e - 52)"
proof -
  have "max (e - 52) (- 1074) = e - 52"
    using assms(3) by simp
  then show ?thesis
    using floor_log2_eq [OF assms(1,2)] by (simp only: ulp_def)
qed

lemma fl_eval:
  assumes "2 powr of_int e \<le> \<bar>x\<bar>" and "\<bar>x\<bar> < 2 powr of_int (e + 1)" and "- 1022 \<le> e"
  shows "fl x = of_int (round_half_even (x / 2 powr of_int (e - 52))) * 2 powr of_int (e - 52)"
proof -
  have "(0::real) < 2 powr of_int e"
    by simp
  with assms(1) have "0 < \<bar>x\<bar>"
    by linarith
  then have "x \<noteq> 0"
    by simp
  then show ?thesis
    by (simp add: fl_def ulp_eq [OF assms])
qed

lemma fl_exact:
  assumes "x = of_int m * 2 powr of_int k" and "2 ^ 52 \<le> \<bar>m\<bar>" and "\<bar>m\<bar> < 2 ^ 53"
    and "- 1074 \<le> k"
  shows "fl x = x"
proof -
  have a: "\<bar>x\<bar> = of_int \<bar>m\<bar> * 2 powr of_int k"
    by (simp add: assms(1) abs_mult)
  have "(2::real) ^ 52 \<le> of_int \<bar>m\<bar>"
    using assms(2) by (metis of_int_le_iff of_int_numeral of_int_power)
  then have "2 powr of_int k * 2 ^ 52 \<le> \<bar>x\<bar>"
    unfolding a by (simp add: mult.commute)
  then have l: "2 powr of_int (k + 52) \<le> \<bar>x\<bar>"
    by (simp add: powr_add)
  have "of_int \<bar>m\<bar> < (2::real) ^ 53"
    using assms(3) by (metis of_int_less_iff of_int_numeral of_int_power)
  then have "\<bar>x\<bar> < 2 powr of_int k * 2 ^ 53"
    unfolding a by (simp add: mult.commute)
  then have u: "\<bar>x\<bar> < 2 powr of_int (k + 52 + 1)"
    by (simp add: powr_add)
  have "fl x = of_int (round_half_even (x / 2 powr of_int (k + 52 - 52))) *
      2 powr of_int (k + 52 - 52)"
    using l u assms(4) by (intro fl_eval) simp_all
  then show ?thesis
    by (simp add: assms(1) round_half_even_of_int)
qed

lemma fl_1: "fl 1 = 1"
  using fl_exact [of 1 "2 ^ 52" "- 52"] by (simp add: powr_minus divide_simps)

lemma fl_100: "fl 100 = 100"
  using fl_exact [of 100 "100 * 2 ^ 46" "- 46"] by (simp add: powr_minus divide_simps)

lemma int_of_risk_1: "int_of_risk 1 = Inr 100"
  by (simp add: int_of_risk_def fl_1 fl_100 py_int_def)

lemma ulp_le: "x \<noteq> 0 \<Longrightarrow> ulp x \<le> \<bar>x\<bar> + 1"
proof -
  assume x: "x \<noteq> 0"
  let ?e = "\<lfloor>log 2 \<bar>x\<bar>\<rfloor>"
  have "2 powr of_int ?e \<le> \<bar>x\<bar>"
    using x floor_log_eq_powr_iff [of "\<bar>x\<bar>" 2 ?e] by simp
  moreover have "(2::real) powr of_int (?e - 52) \<le> 2 powr of_int ?e"
    by (intro powr_mono) simp_all
  moreover have "2 powr of_int (- 1074) \<le> (1::real)"
    by (simp add: powr_minus divide_simps)
  ultimately have "2 powr of_int (?e - 52) \<le> \<bar>x\<bar> + 1" and "2 powr of_int (- 1074) \<le> \<bar>x\<bar> + 1"
    by linarith+
  then show ?thesis
    unfolding ulp_def by (cases "\<lfloor>log 2 \<bar>x\<bar>\<rfloor> - 52 \<le> - 1074") (simp_all only: max_def if_True if_False)
qed

lemma fl_bound: "\<bar>fl x\<bar> \<le> 2 * \<bar>x\<bar> + 1"
proof (cases "x = 0")
  case True
  then show ?thesis by (simp add: fl_def)
next
  case False
  have p: "0 < ulp x"
    by (simp add: ulp_def)
  have "\<bar>of_int (round_half_even (x / ulp x)) - x / ulp x\<bar> \<le> 1 / 2"
    by (rule round_half_even_error)
  then have "\<bar>of_int (round_half_even (x / ulp x)) - x / ulp x\<bar> * ulp x \<le> 1 / 2 * ulp x"
    using p by (intro mult_right_mono) simp_all
  moreover have "of_int (round_half_even (x / ulp x)) * ulp x - x =
      (of_int (round_half_even (x / ulp x)) - x / ulp x) * ulp x"
    using p by (simp add: left_diff_distrib)
  moreover have "\<bar>ulp x\<bar> = ulp x"
    using p by simp
  ultimately have "\<bar>of_int (round_half_even (x / ulp x)) * ulp x - x\<bar> \<le> ulp x / 2"
    by (simp only: abs_mult)
  then have "\<bar>fl x - x\<bar> \<le> ulp x / 2"
    using False by (simp add: fl_def)
  with ulp_le [OF False] show ?thesis
    by linarith
qed

lemma int_of_risk_probability:
  assumes "0 \<le> fp" and "fp \<le> 1"
  shows "int_of_risk fp = Inr (py_int (fl (fl fp * 100)))"
proof -
  have "\<bar>fl fp\<bar> \<le> 3"
    using fl_bound [of fp] assms by simp
  then have "\<bar>fl fp * 100\<bar> \<le> 300"
    by (simp add: abs_mult)
  with fl_bound [of "fl fp * 100"] have "\<bar>fl (fl fp * 100)\<bar> \<le> 601"
    by linarith
  moreover have "(601::real) < 2 ^ 1024"
    by simp
  ultimately show ?thesis
    by (simp add: int_of_risk_def)
qed

lemma round_half_even_between:
  assumes "of_int n < y" and "y < of_int n + 1"
  shows "round_half_even y =
     (if y - of_int n < 1 / 2 then n else if 1 / 2 < y - of_int n then n + 1
      else if even n then n else n + 1)"
proof -
  have "\<lfloor>y\<rfloor> = n"
    using assms by linarith
  then show ?thesis
    by (simp add: round_half_even_def)
qed

lemma int_of_risk_nine: "int_of_risk (1 - 8106479329266893 / 2 ^ 53) = Inr 9"
proof -
  let ?f = "1 - 8106479329266893 / 2 ^ 53 :: real"
  have f: "fl ?f = ?f"
    using fl_exact [of ?f 7205759403792792 "- 56"] by (simp add: powr_minus divide_simps)
  have "fl (?f * 100) =
      of_int (round_half_even (?f * 100 / 2 powr of_int (3 - 52))) * 2 powr of_int (3 - 52)"
    by (intro fl_eval) (simp_all add: powr_minus divide_simps)
  moreover have "?f * 100 / 2 powr of_int (3 - 52) = 5629499534213118 + 3 / 4"
    by (simp add: powr_minus divide_simps)
  moreover have "round_half_even (5629499534213118 + 3 / 4) = 5629499534213119"
    using round_half_even_between [of 5629499534213118 "5629499534213118 + 3 / 4"] by simp
  ultimately have r: "fl (?f * 100) = 5629499534213119 / 2 ^ 49"
    by (simp add: powr_minus divide_simps)
  have "\<lfloor>5629499534213119 / 2 ^ 49 :: real\<rfloor> = 9"
    by (rule floor_unique) simp_all
  then show ?thesis
    unfolding int_of_risk_def f r by (simp add: py_int_def)
qed

lemma int_of_risk_ninety: "int_of_risk (1 - 3602879701896397 / 2 ^ 55) = Inr 90"
proof -
  let ?f = "1 - 3602879701896397 / 2 ^ 55 :: real"
  have "fl ?f =
      of_int (round_half_even (?f / 2 powr of_int (- 1 - 52))) * 2 powr of_int (- 1 - 52)"
    by (intro fl_eval) (simp_all add: powr_minus divide_simps)
  moreover have "?f / 2 powr of_int (- 1 - 52) = 8106479329266892 + 3 / 4"
    by (simp add: powr_minus divide_simps)
  moreover have "round_half_even (8106479329266892 + 3 / 4) = 8106479329266893"
    using round_half_even_between [of 8106479329266892 "8106479329266892 + 3 / 4"] by simp
  ultimately have f: "fl ?f = 8106479329266893 / 2 ^ 53"
    by (simp add: powr_minus divide_simps)
  let ?x = "8106479329266893 / 2 ^ 53 * 100 :: real"
  have "fl ?x =
      of_int (round_half_even (?x / 2 powr of_int (6 - 52))) * 2 powr of_int (6 - 52)"
    by (intro fl_eval) (simp_all add: powr_minus divide_simps)
  moreover have "?x / 2 powr of_int (6 - 52) = 6333186975989760 + 5 / 32"
    by (simp add: powr_minus divide_simps)
  moreover have "round_half_even (6333186975989760 + 5 / 32) = 6333186975989760"
    using round_half_even_between [of 6333186975989760 "6333186975989760 + 5 / 32"] by simp
  ultimately have r: "fl ?x = 90"
    by (simp add: powr_minus divide_simps)
  show ?thesis
    unfolding int_of_risk_def f r by (simp add: py_int_def)
qed

subsection \<open>The risk mapping\<close>

text \<open>
  C1. Where label 0 is among the classes and the probability vector has an entry for it,
  the risk mapping of \<open>predict_fraud\<close> and the one of the loop of \<open>upload_csv\<close> take
  the fraud probability as 1 minus the probability at the index of class 0, the risk as
  that probability times 100, and the status as \<open>Suspicious\<close> exactly when the predicted
  label is not 0, \<open>Safe\<close> otherwise. In particular label 0 with probability 1 for class 0
  gives risk 0 and \<open>Safe\<close>, and a label other than 0 with probability 0 for class 0 gives
  risk 100 and \<open>Suspicious\<close>.
\<close>

theorem risk_mapper_rule:
  assumes "0 \<in> set cls" and "index cls 0 < length probs"
    and "i < length probas" and "probas ! i = probs"
  shows "cls ! index cls 0 = 0 \<and>
     fraud_prob_single cls probs = Inr (1 - probs ! index cls 0) \<and>
     risk_map pred probs cls =
       Inr \<lparr>is_fraud = (pred \<noteq> 0),
            resp_risk_score = (1 - probs ! index cls 0) * 100,
            resp_status = (if pred \<noteq> 0 then ''Suspicious'' else ''Safe'')\<rparr> \<and>
     fraud_prob_row probas (normal_idx_of cls) i = Inr (1 - probs ! index cls 0) \<and>
     row_risk probas (normal_idx_of cls) i pred =
       Inr ((1 - probs ! index cls 0) * 100, if pred \<noteq> 0 then ''Suspicious'' else ''Safe'') \<and>
     (pred = 0 \<and> probs ! index cls 0 = 1 \<longrightarrow>
        risk_map pred probs cls =
          Inr \<lparr>is_fraud = False, resp_risk_score = 0, resp_status = ''Safe''\<rparr> \<and>
        row_risk probas (normal_idx_of cls) i pred = Inr (0, ''Safe'')) \<and>
     (pred \<noteq> 0 \<and> probs ! index cls 0 = 0 \<longrightarrow>
        risk_map pred probs cls =
          Inr \<lparr>is_fraud = True, resp_risk_score = 100, resp_status = ''Suspicious''\<rparr> \<and>
        row_risk probas (normal_idx_of cls) i pred = Inr (100, ''Suspicious''))"
  using assms index_nth [of 0 cls]
  by (simp add: risk_map_def fraud_prob_single_def getitem_def Let_def row_risk_def
      fraud_prob_row_def normal_idx_of_def)

theorem risk_mapper_rule_witness:
  "risk_map 0 [0, 1] [1, 0] =
     Inr \<lparr>is_fraud = False, resp_risk_score = 0, resp_status = ''Safe''\<rparr> \<and>
   risk_map 2 [0, 0, 1] [1, 0, 2] =
     Inr \<lparr>is_fraud = True, resp_risk_score = 100, resp_status = ''Suspicious''\<rparr> \<and>
   row_risk [[1 / 4, 3 / 4]] (normal_idx_of [0, 1]) 0 1 = Inr (75, ''Suspicious'') \<and>
   risk_map 1 [1 / 4, 3 / 4] [0, 1] =
     Inr \<lparr>is_fraud = True, resp_risk_score = 75, resp_status = ''Suspicious''\<rparr>"
  using risk_mapper_rule [of "[1, 0]" "[0, 1]" 0 "[[0, 1]]" 0]
    risk_mapper_rule [of "[1, 0, 2]" "[0, 0, 1]" 0 "[[0, 0, 1]]" 2]
    risk_mapper_rule [of "[0, 1]" "[1 / 4, 3 / 4]" 0 "[[1 / 4, 3 / 4]]" 1]
  by simp

text \<open>
  C3. Where label 0 is not among the classes, the fraud probability is 1 and the risk is
  100 on both paths, whatever the probability vector holds (also an empty one), and a
  record built by the upload loop stores the risk score 100, the integer of the binary64
  product.
\<close>

theorem normal_absent_full_risk:
  assumes "0 \<notin> set cls"
  shows "fraud_prob_single cls probs = Inr 1 \<and>
     risk_map pred probs cls =
       Inr \<lparr>is_fraud = (pred \<noteq> 0), resp_risk_score = 100,
            resp_status = (if pred \<noteq> 0 then ''Suspicious'' else ''Safe'')\<rparr> \<and>
     fraud_prob_row probas (normal_idx_of cls) i = Inr 1 \<and>
     row_risk probas (normal_idx_of cls) i pred =
       Inr (100, if pred \<noteq> 0 then ''Suspicious'' else ''Safe'') \<and>
     stored_risk probas (normal_idx_of cls) i = Inr 100 \<and>
     (\<forall>t. make_txn e df probas (normal_idx_of cls) i pred = Inr (Bound t) \<longrightarrow>
        risk_score t = 100)"
  using assms
  by (auto simp add: risk_map_def fraud_prob_single_def row_risk_def fraud_prob_row_def
      normal_idx_of_def make_txn_def stored_risk_def int_of_risk_1
      split: sum.splits pd_datetime.splits)

theorem normal_absent_full_risk_witness:
  "risk_map 1 [3 / 10, 7 / 10] [1, 2] =
     Inr \<lparr>is_fraud = True, resp_risk_score = 100, resp_status = ''Suspicious''\<rparr> \<and>
   risk_map 1 [] [1, 2] =
     Inr \<lparr>is_fraud = True, resp_risk_score = 100, resp_status = ''Suspicious''\<rparr> \<and>
   row_risk [] (normal_idx_of [1, 2]) 5 1 = Inr (100, ''Suspicious'')"
  using normal_absent_full_risk [of "[1, 2]" "[3 / 10, 7 / 10]" 1 "[]" 5 ex_env ex_df]
    normal_absent_full_risk [of "[1, 2]" "[]" 1 "[]" 5 ex_env ex_df]
  by simp

subsection \<open>The token check\<close>

text \<open>
  C10. A request whose \<open>Authorization\<close> header starts with \<open>Bearer\<close> and carries the
  literal token \<open>hardcoded-dev-token-for-deployment\<close> passes \<open>require_token\<close> whatever
  \<open>decode_token\<close> would answer; the state, and with it the count of \<open>decode_token\<close>
  calls, is unchanged, and the upload route goes on to its handler.
\<close>

theorem hardcoded_token_accepted:
  assumes "startswith authorization ''Bearer ''"
    and "strip (replace authorization ''Bearer '' []) = ''hardcoded-dev-token-for-deployment''"
  shows "require_token dt authorization s = (Inr (), s) \<and>
     decodes (snd (require_token dt authorization s)) = decodes s \<and>
     post_upload e authorization f s = upload_csv e f s"
  using assms by (simp add: post_upload_def require_token_def)

theorem hardcoded_token_accepted_witness:
  "require_token (\<lambda>t. False) ''Bearer hardcoded-dev-token-for-deployment'' ex_state =
     (Inr (), ex_state) \<and>
   decodes (snd (require_token (\<lambda>t. False) ''Bearer hardcoded-dev-token-for-deployment''
     ex_state)) = 0 \<and>
   post_upload ex_env ''Bearer hardcoded-dev-token-for-deployment'' ex_file ex_state =
     upload_csv ex_env ex_file ex_state"
proof -
  have p: "startswith ''Bearer hardcoded-dev-token-for-deployment'' ''Bearer ''"
    by (simp add: startswith_def)
  have t: "strip (replace ''Bearer hardcoded-dev-token-for-deployment'' ''Bearer '' []) =
      ''hardcoded-dev-token-for-deployment''"
    by (simp only: replace_bearer strip_token)
  have d: "decodes ex_state = 0"
    by (simp add: ex_state_def)
  from hardcoded_token_accepted [OF p t, of "\<lambda>t. False" ex_state ex_env ex_file] d
  show ?thesis
    by simp
qed

subsection \<open>The history window\<close>

lemma sort_key_neg_descending:
  "sorted_wrt (\<lambda>a b. timestamp b \<le> timestamp a) (sort_key (\<lambda>r. - timestamp r) xs)"
proof -
  have "sorted (map (\<lambda>r. - timestamp r) (sort_key (\<lambda>r. - timestamp r) xs))"
    by (rule sorted_sort_key)
  then show ?thesis
    by (simp add: sorted_wrt_map)
qed

lemma history_rows_length:
  "length (history_rows tie tbl uid ts) =
     min 50 (length (filter (\<lambda>r. user_id r = uid \<and> timestamp r < ts) tbl))"
  by (simp add: history_rows_def min.commute)

lemma history_rows_descending: "descending (map timestamp (history_rows tie tbl uid ts))"
  unfolding descending_def history_rows_def sorted_wrt_map
  by (rule sorted_wrt_take) (rule sort_key_neg_descending)

lemma history_rows_split:
  obtains rest where
    "mset (history_rows tie tbl uid ts) + mset rest =
       mset (filter (\<lambda>r. user_id r = uid \<and> timestamp r < ts) tbl)"
    and "\<forall>r\<in>set rest. \<forall>r'\<in>set (history_rows tie tbl uid ts). timestamp r \<le> timestamp r'"
proof -
  define xs where "xs = sort_key (\<lambda>r. - timestamp r) (sort_key tie
    (filter (\<lambda>r. user_id r = uid \<and> timestamp r < ts) tbl))"
  have h: "history_rows tie tbl uid ts = take 50 xs"
    by (simp add: history_rows_def xs_def)
  have "mset (take 50 xs) + mset (drop 50 xs) = mset xs"
    by (metis append_take_drop_id mset_append)
  moreover have "mset xs = mset (filter (\<lambda>r. user_id r = uid \<and> timestamp r < ts) tbl)"
    by (simp add: xs_def del: mset_filter)
  ultimately have m: "mset (history_rows tie tbl uid ts) + mset (drop 50 xs) =
      mset (filter (\<lambda>r. user_id r = uid \<and> timestamp r < ts) tbl)"
    by (simp only: h)
  have "sorted_wrt (\<lambda>a b. timestamp b \<le> timestamp a) (take 50 xs @ drop 50 xs)"
    unfolding append_take_drop_id xs_def by (rule sort_key_neg_descending)
  then have "\<forall>x\<in>set (take 50 xs). \<forall>y\<in>set (drop 50 xs). timestamp y \<le> timestamp x"
    unfolding sorted_wrt_append by blast
  then have "\<forall>r\<in>set (drop 50 xs). \<forall>r'\<in>set (history_rows tie tbl uid ts).
      timestamp r \<le> timestamp r'"
    unfolding h by blast
  with m show ?thesis
    by (rule that)
qed

lemma history_rows_subset:
  "mset (history_rows tie tbl uid ts) \<subseteq>#
     mset (filter (\<lambda>r. user_id r = uid \<and> timestamp r < ts) tbl)"
  by (rule history_rows_split [of tie tbl uid ts]) (metis mset_subset_eq_add_left)

lemma history_rows_most_recent:
  "\<forall>r\<in>#mset (filter (\<lambda>r. user_id r = uid \<and> timestamp r < ts) tbl) -
       mset (history_rows tie tbl uid ts).
     \<forall>r'\<in>set (history_rows tie tbl uid ts). timestamp r \<le> timestamp r'"
proof -
  obtain rest where m: "mset (history_rows tie tbl uid ts) + mset rest =
       mset (filter (\<lambda>r. user_id r = uid \<and> timestamp r < ts) tbl)"
    and o: "\<forall>r\<in>set rest. \<forall>r'\<in>set (history_rows tie tbl uid ts). timestamp r \<le> timestamp r'"
    by (rule history_rows_split)
  have "mset (filter (\<lambda>r. user_id r = uid \<and> timestamp r < ts) tbl) -
      mset (history_rows tie tbl uid ts) = mset rest"
    unfolding m [symmetric] by simp
  with o show ?thesis
    by simp
qed


lemma iloc_last_nonempty: "fs \<noteq> [] \<Longrightarrow> iloc_last fs = Inr (last fs)"
  by (cases fs rule: rev_cases) (simp_all add: iloc_last_def getitem_def)

lemma iloc_last_empty: "iloc_last [] = Inl (IndexError (- 1) 0)"
  by (simp add: iloc_last_def getitem_def)

lemma predict_fraud_after_query:
  assumes "model_exists e" and "joblib_load e = Some pl"
    and "to_datetime e (Text (req_timestamp txn)) = Inr (At ts)" and "storage_error e = None"
  shows "predict_fraud e txn s =
     (case preprocess_data e (DataFrame_of (history_data
             (history_rows (tie_order e) (db s) (req_user_id txn) ts) txn ts)) of
        Inl ex \<Rightarrow>
          (Inl (HTTPException 500 (''Preprocessing failed: '' @ str_exc ex)),
           s\<lparr>loads := loads s + 1\<rparr>)
      | Inr fs \<Rightarrow>
          (case iloc_last fs of
             Inl ex \<Rightarrow> (Inl (Unhandled ex), s\<lparr>loads := loads s + 1\<rparr>)
           | Inr x \<Rightarrow>
               (case predict_block pl x of
                  Inl ex \<Rightarrow>
                    (Inl (HTTPException 500 (''Prediction failed: '' @ str_exc ex)),
                     s\<lparr>loads := loads s + 1, predicts := predicts s + 1\<rparr>)
                | Inr resp \<Rightarrow>
                    (Inr resp, s\<lparr>loads := loads s + 1, predicts := predicts s + 1\<rparr>))))"
  using assms by (simp add: predict_fraud_def select_history_def split: sum.splits)

lemma ex_history:
  "history_rows (tie_order ex_env) (db ex_state) (req_user_id ex_req) 3 =
     [ex_txn ''u1'' 2, ex_txn ''u1'' 1]"
  by (simp add: history_rows_def ex_state_def ex_req_def ex_txn_def ex_env_def)

lemma ex_window:
  "map Timestamp (history_data
     (history_rows (tie_order ex_env) (db ex_state) (req_user_id ex_req) 3) ex_req 3) = [2, 1, 3]"
  by (simp add: ex_history) (simp add: history_data_def history_dict_def current_data_def ex_txn_def)

text \<open>
  C2, as the code has it. The sequence from which \<open>predict_fraud\<close> builds the frame for
  \<open>preprocess_data\<close> is the rows the query selected, in the order of the query, followed
  by the new transaction as its last element; nothing reverses it. The selected rows are
  stored rows of the requesting user strictly before the new timestamp, each taken once,
  exactly 50 of them or all if there are fewer, in descending order of timestamp, and
  no row left out is more recent than a row taken; which rows of equal timestamp come
  first is the database's choice. Each dictionary carries the fields of its row and
  \<open>Fraud_Type\<close> 0, the frame has one row per dictionary, and where the model loads, the
  timestamp parses and the database answers, the outcome of \<open>predict_fraud\<close> is the
  outcome of preprocessing and scoring exactly this frame.
\<close>

theorem history_window_shape:
  "history_data (history_rows (tie_order e) (db s) (req_user_id txn) ts) txn ts =
     map (\<lambda>r. \<lparr>Timestamp = timestamp r, UserID = user_id r, Amount = amount r, City = city r,
                Category = category r, Fraud_Type = 0\<rparr>)
       (history_rows (tie_order e) (db s) (req_user_id txn) ts) @
     [\<lparr>Timestamp = ts, UserID = req_user_id txn, Amount = req_amount txn, City = req_city txn,
       Category = req_category txn, Fraud_Type = 0\<rparr>] \<and>
   length (history_rows (tie_order e) (db s) (req_user_id txn) ts) =
     min 50 (length (filter (\<lambda>r. user_id r = req_user_id txn \<and> timestamp r < ts) (db s))) \<and>
   mset (history_rows (tie_order e) (db s) (req_user_id txn) ts) \<subseteq>#
     mset (filter (\<lambda>r. user_id r = req_user_id txn \<and> timestamp r < ts) (db s)) \<and>
   descending (map timestamp (history_rows (tie_order e) (db s) (req_user_id txn) ts)) \<and>
   (\<forall>r\<in>#mset (filter (\<lambda>r. user_id r = req_user_id txn \<and> timestamp r < ts) (db s)) -
        mset (history_rows (tie_order e) (db s) (req_user_id txn) ts).
      \<forall>r'\<in>set (history_rows (tie_order e) (db s) (req_user_id txn) ts).
        timestamp r \<le> timestamp r') \<and>
   DataFrame_of hs =
     \<lparr>columns = [''Timestamp'', ''UserID'', ''Amount'', ''City'', ''Category'', ''Fraud_Type''],
      rows = map (\<lambda>h. [''Timestamp'' \<mapsto> Time (Timestamp h), ''UserID'' \<mapsto> Text (UserID h),
                       ''Amount'' \<mapsto> Num (Amount h), ''City'' \<mapsto> Text (City h),
                       ''Category'' \<mapsto> Text (Category h),
                       ''Fraud_Type'' \<mapsto> IntC (Fraud_Type h)]) hs\<rparr> \<and>
   (model_exists e \<and> joblib_load e = Some pl \<and>
    to_datetime e (Text (req_timestamp txn)) = Inr (At ts) \<and> storage_error e = None \<longrightarrow>
    predict_fraud e txn s =
      (case preprocess_data e (DataFrame_of (history_data
              (history_rows (tie_order e) (db s) (req_user_id txn) ts) txn ts)) of
         Inl ex \<Rightarrow>
           (Inl (HTTPException 500 (''Preprocessing failed: '' @ str_exc ex)),
            s\<lparr>loads := loads s + 1\<rparr>)
       | Inr fs \<Rightarrow>
           (case iloc_last fs of
              Inl ex \<Rightarrow> (Inl (Unhandled ex), s\<lparr>loads := loads s + 1\<rparr>)
            | Inr x \<Rightarrow>
                (case predict_block pl x of
                   Inl ex \<Rightarrow>
                     (Inl (HTTPException 500 (''Prediction failed: '' @ str_exc ex)),
                      s\<lparr>loads := loads s + 1, predicts := predicts s + 1\<rparr>)
                 | Inr resp \<Rightarrow>
                     (Inr resp, s\<lparr>loads := loads s + 1, predicts := predicts s + 1\<rparr>)))))"
proof -
  have a: "history_data (history_rows (tie_order e) (db s) (req_user_id txn) ts) txn ts =
     map (\<lambda>r. \<lparr>Timestamp = timestamp r, UserID = user_id r, Amount = amount r, City = city r,
                Category = category r, Fraud_Type = 0\<rparr>)
       (history_rows (tie_order e) (db s) (req_user_id txn) ts) @
     [\<lparr>Timestamp = ts, UserID = req_user_id txn, Amount = req_amount txn, City = req_city txn,
       Category = req_category txn, Fraud_Type = 0\<rparr>]"
    by (simp add: history_data_def history_dict_def current_data_def)
  have f: "DataFrame_of hs =
     \<lparr>columns = [''Timestamp'', ''UserID'', ''Amount'', ''City'', ''Category'', ''Fraud_Type''],
      rows = map (\<lambda>h. [''Timestamp'' \<mapsto> Time (Timestamp h), ''UserID'' \<mapsto> Text (UserID h),
                       ''Amount'' \<mapsto> Num (Amount h), ''City'' \<mapsto> Text (City h),
                       ''Category'' \<mapsto> Text (Category h),
                       ''Fraud_Type'' \<mapsto> IntC (Fraud_Type h)]) hs\<rparr>"
    by (simp add: DataFrame_of_def dict_of_def)
  show ?thesis
    by (intro conjI impI a f history_rows_length history_rows_subset history_rows_descending
        history_rows_most_recent predict_fraud_after_query) simp_all
qed

theorem history_window_shape_witness:
  "length (history_rows (tie_order ex_env) (db ex_state) (req_user_id ex_req) 3) = 2 \<and>
   predict_fraud ex_env ex_req ex_state =
     (Inr \<lparr>is_fraud = True, resp_risk_score = 75, resp_status = ''Suspicious''\<rparr>,
      ex_state\<lparr>loads := 1, predicts := 1\<rparr>)"
proof -
  have h: "model_exists ex_env \<and> joblib_load ex_env = Some ex_pipeline \<and>
      to_datetime ex_env (Text (req_timestamp ex_req)) = Inr (At 3) \<and> storage_error ex_env = None"
    by (simp add: ex_env_def ex_req_def ex_to_datetime_def)
  have l: "min 50 (length (filter (\<lambda>r. user_id r = req_user_id ex_req \<and> timestamp r < 3)
      (db ex_state))) = 2"
    by (simp add: ex_state_def ex_req_def ex_txn_def)
  have p: "preprocess_data ex_env (DataFrame_of (history_data
      (history_rows (tie_order ex_env) (db ex_state) (req_user_id ex_req) 3) ex_req 3)) =
      Inr [[5, 3], [5, 3], [12, 3]]"
    unfolding ex_history
    by (simp add: ex_env_def ex_preprocess_def DataFrame_of_def dict_of_def history_data_def
        history_dict_def current_data_def ex_txn_def ex_req_def ex_amount_def ex_time_def
        ex_float_def ex_to_datetime_def)
  have b: "predict_block ex_pipeline [12, 3] =
      Inr \<lparr>is_fraud = True, resp_risk_score = 75, resp_status = ''Suspicious''\<rparr>"
    by (simp add: predict_block_def ex_pipeline_def getitem_def risk_map_def fraud_prob_single_def)
  from history_window_shape [of ex_env ex_state ex_req 3 "[]" ex_pipeline] h l
  have "length (history_rows (tie_order ex_env) (db ex_state) (req_user_id ex_req) 3) = 2"
    and "predict_fraud ex_env ex_req ex_state =
      (case preprocess_data ex_env (DataFrame_of (history_data
              (history_rows (tie_order ex_env) (db ex_state) (req_user_id ex_req) 3) ex_req 3)) of
         Inl ex \<Rightarrow>
           (Inl (HTTPException 500 (''Preprocessing failed: '' @ str_exc ex)),
            ex_state\<lparr>loads := loads ex_state + 1\<rparr>)
       | Inr fs \<Rightarrow>
           (case iloc_last fs of
              Inl ex \<Rightarrow> (Inl (Unhandled ex), ex_state\<lparr>loads := loads ex_state + 1\<rparr>)
            | Inr x \<Rightarrow>
                (case predict_block ex_pipeline x of
                   Inl ex \<Rightarrow>
                     (Inl (HTTPException 500 (''Prediction failed: '' @ str_exc ex)),
                      ex_state\<lparr>loads := loads ex_state + 1, predicts := predicts ex_state + 1\<rparr>)
                 | Inr resp \<Rightarrow>
                     (Inr resp,
                      ex_state\<lparr>loads := loads ex_state + 1, predicts := predicts ex_state + 1\<rparr>))))"
    by metis+
  then show ?thesis
    unfolding p by (simp add: iloc_last_nonempty b) (simp add: ex_state_def)
qed

text \<open>
  The claim as stated fails: for a user with stored transactions at times 1 and 2 and a
  new transaction at time 3, the timestamps of the window are 2, 1, 3, which is not an
  ascending sequence.
\<close>

theorem history_window_not_ascending:
  "to_datetime ex_env (Text (req_timestamp ex_req)) = Inr (At 3) \<and>
   map Timestamp (history_data
     (history_rows (tie_order ex_env) (db ex_state) (req_user_id ex_req) 3) ex_req 3) = [2, 1, 3] \<and>
   \<not> sorted (map Timestamp (history_data
     (history_rows (tie_order ex_env) (db ex_state) (req_user_id ex_req) 3) ex_req 3))"
  by (simp add: ex_window) (simp add: ex_env_def ex_req_def ex_to_datetime_def)

subsection \<open>A first transaction of a user\<close>









text \<open>
  The history is unavailable only where the query raises: the database is unreachable, or
  the timestamp parsed to \<open>NaT\<close>. The exception leaves the handler.
\<close>

lemma history_unavailable:
  assumes "model_exists e" and "joblib_load e = Some pl"
    and "to_datetime e (Text (req_timestamp txn)) = Inr current_ts"
    and "storage_error e = Some ex"
  shows "predict_fraud e txn s = (Inl (Unhandled ex), s\<lparr>loads := loads s + 1\<rparr>)"
  using assms by (simp add: predict_fraud_def select_history_def)

lemma nat_timestamp_unhandled:
  assumes "model_exists e" and "joblib_load e = Some pl"
    and "to_datetime e (Text (req_timestamp txn)) = Inr NaT" and "storage_error e = None"
  shows "predict_fraud e txn s = (Inl (Unhandled (bind_error e)), s\<lparr>loads := loads s + 1\<rparr>)"
  using assms by (simp add: predict_fraud_def select_history_def)

subsection \<open>Column validation\<close>

lemma sublist_join_repr: "x \<in> set xs \<Longrightarrow> sublist x (join_repr xs)"
proof (induction xs rule: join_repr.induct)
  case 1
  then show ?case by simp
next
  case (2 y)
  then show ?case
    using sublist_appendI [of y "[CHR 0x27]" "[CHR 0x27]"] by simp
next
  case (3 y z zs)
  show ?case
  proof (cases "x = y")
    case True
    then show ?thesis
      using sublist_appendI [of y "[CHR 0x27]" "[CHR 0x27] @ '', '' @ join_repr (z # zs)"]
      by simp
  next
    case False
    with 3 have "sublist x (join_repr (z # zs))" by simp
    then obtain ps ss where "join_repr (z # zs) = ps @ x @ ss"
      by (auto simp add: sublist_def)
    then have "join_repr (y # z # zs) = ([CHR 0x27] @ y @ [CHR 0x27] @ '', '' @ ps) @ x @ ss"
      by simp
    then show ?thesis
      unfolding sublist_def by blast
  qed
qed

lemma sublist_detail:
  assumes "x \<in> set xs"
  shows "sublist x (''Missing columns: '' @ repr_list xs)"
proof -
  from sublist_join_repr [OF assms] obtain ps ss where "join_repr xs = ps @ x @ ss"
    by (auto simp add: sublist_def)
  then have "''Missing columns: '' @ repr_list xs = (''Missing columns: ['' @ ps) @ x @ (ss @ '']'')"
    by (simp add: repr_list_def)
  then show ?thesis
    unfolding sublist_def by blast
qed

text \<open>
  C5. In \<open>upload_csv\<close> the columns of the parsed frame are checked against the required
  columns (\<open>Timestamp\<close>, \<open>UserID\<close>, \<open>Amount\<close>, \<open>City\<close>, \<open>Category\<close>) before
  preprocessing, scoring and saving: where the file name, the model and the parse are
  accepted and a required column is missing, the handler fails with status 400, the
  detail names every missing column, and nothing but the count of model loads changes
  in the state: no call of the pipeline, no row in the table.
\<close>

theorem missing_columns_rejected:
  assumes "endswith (filename f) ''.csv''" and "model_exists e" and "joblib_load e = Some pl"
    and "read_csv e (file_content f) = Some df" and "missing_cols df \<noteq> []"
  shows "upload_csv e f s =
       (Inl (HTTPException 400 (''Missing columns: '' @ repr_list (missing_cols df))),
        s\<lparr>loads := loads s + 1\<rparr>) \<and>
     db (snd (upload_csv e f s)) = db s \<and>
     predicts (snd (upload_csv e f s)) = predicts s \<and>
     set (missing_cols df) = {c \<in> set required_cols. c \<notin> set (columns df)} \<and>
     (\<forall>c\<in>set (missing_cols df).
        sublist c (''Missing columns: '' @ repr_list (missing_cols df)))"
proof -
  have u: "upload_csv e f s =
       (Inl (HTTPException 400 (''Missing columns: '' @ repr_list (missing_cols df))),
        s\<lparr>loads := loads s + 1\<rparr>)"
    using assms by (simp add: upload_csv_def)
  have m: "set (missing_cols df) = {c \<in> set required_cols. c \<notin> set (columns df)}"
    by (auto simp add: missing_cols_def)
  have n: "\<forall>c\<in>set (missing_cols df).
      sublist c (''Missing columns: '' @ repr_list (missing_cols df))"
    using sublist_detail by blast
  from u have d: "db (snd (upload_csv e f s)) = db s"
    and p: "predicts (snd (upload_csv e f s)) = predicts s"
    by simp_all
  from u d p m n show ?thesis
    by blast
qed

theorem missing_columns_rejected_witness:
  "upload_csv ex_env \<lparr>filename = ''batch.csv'', file_content = ''no city''\<rparr> ex_state =
     (Inl (HTTPException 400 (''Missing columns: ['' @ [CHR 0x27] @ ''City'' @ [CHR 0x27] @ '']'')),
      ex_state\<lparr>loads := 1\<rparr>) \<and>
   sublist ''City'' (''Missing columns: '' @ repr_list (missing_cols ex_df_no_city))"
  using missing_columns_rejected [of "\<lparr>filename = ''batch.csv'', file_content = ''no city''\<rparr>"
      ex_env ex_pipeline ex_df_no_city ex_state]
  by (simp add: ex_env_def endswith_def ex_df_no_city_def missing_cols_def required_cols_def
      repr_list_def ex_state_def suffix_def)

subsection \<open>The batch and its commit\<close>

lemma cell_at_add_fraud_type:
  "c \<noteq> ''Fraud_Type'' \<Longrightarrow> cell_at (add_fraud_type df) i c = cell_at df i c"
  by (simp add: cell_at_def add_fraud_type_def getitem_def)

lemma cell_at_valid:
  assumes "i < length (rows df)" and "r = rows df ! i"
  shows "cell_at df i c = (case r c of None \<Rightarrow> Inl (KeyError c) | Some v \<Rightarrow> Inr v)"
  using assms by (simp add: cell_at_def getitem_def)

lemma fraud_prob_row_value:
  assumes "i < length probas" and "length (probas ! i) = length cls"
  shows "fraud_prob_row probas (normal_idx_of cls) i =
     Inr (if 0 \<in> set cls then 1 - probas ! i ! index cls 0 else 1)"
  using assms index_nth [of 0 cls]
  by (simp add: fraud_prob_row_def normal_idx_of_def getitem_def)

lemma fraud_prob_in_range:
  assumes "length pr = length cls" and "\<forall>p\<in>set pr. 0 \<le> p \<and> p \<le> 1"
  shows "0 \<le> (if 0 \<in> set cls then 1 - pr ! index cls 0 else 1) \<and>
     (if 0 \<in> set cls then 1 - pr ! index cls 0 else 1) \<le> (1::real)"
proof (cases "0 \<in> set cls")
  case True
  with index_nth [of 0 cls] assms(1) have "pr ! index cls 0 \<in> set pr"
    by simp
  with assms(2) have "0 \<le> pr ! index cls 0 \<and> pr ! index cls 0 \<le> 1"
    by blast
  with True show ?thesis by simp
next
  case False
  then show ?thesis by simp
qed

lemma make_txn_valid:
  assumes "i < length (rows df)" and "valid_row e (rows df ! i)"
    and "i < length probas" and "length (probas ! i) = length cls"
    and "\<forall>p\<in>set (probas ! i). 0 \<le> p \<and> p \<le> 1"
  shows "\<exists>tc ac uc cc gc t a.
     (rows df ! i) ''Timestamp'' = Some tc \<and> to_datetime e tc = Inr (At t) \<and>
     (rows df ! i) ''Amount'' = Some ac \<and> py_float e ac = Inr a \<and>
     (rows df ! i) ''UserID'' = Some uc \<and> (rows df ! i) ''City'' = Some cc \<and>
     (rows df ! i) ''Category'' = Some gc \<and>
     make_txn e (add_fraud_type df) probas (normal_idx_of cls) i pred =
       Inr (Bound \<lparr>txn_id = uuid4 e i, timestamp = t, amount = a, user_id = py_str e uc,
         city = py_str e cc, category = py_str e gc,
         risk_score = py_int (fl (fl (if 0 \<in> set cls then 1 - probas ! i ! index cls 0 else 1)
           * 100)),
         status = (if pred \<noteq> 0 then ''Suspicious'' else ''Safe''), flag_type = None,
         flag_reason = None, is_training_data = False\<rparr>)"
proof -
  let ?fp = "if 0 \<in> set cls then 1 - probas ! i ! index cls 0 else 1"
  note fp = fraud_prob_row_value [OF assms(3,4)]
  have x: "row_risk probas (normal_idx_of cls) i pred =
      Inr (?fp * 100, if pred \<noteq> 0 then ''Suspicious'' else ''Safe'')"
    by (simp only: row_risk_def fp sum.case)
  have k: "stored_risk probas (normal_idx_of cls) i = Inr (py_int (fl (fl ?fp * 100)))"
    using fraud_prob_in_range [OF assms(4,5)]
    by (simp only: stored_risk_def fp sum.case int_of_risk_probability)
  obtain tc ac uc cc gc t where c: "(rows df ! i) ''Timestamp'' = Some tc"
    "(rows df ! i) ''Amount'' = Some ac" "(rows df ! i) ''UserID'' = Some uc"
    "(rows df ! i) ''City'' = Some cc" "(rows df ! i) ''Category'' = Some gc"
    and ok: "to_datetime e tc = Inr (At t)" "\<not> isl (py_float e ac)"
    using assms(2) by (auto simp add: valid_row_def split: option.splits)
  obtain a where v: "py_float e ac = Inr a"
    using ok(2) by (cases "py_float e ac") auto
  have "make_txn e (add_fraud_type df) probas (normal_idx_of cls) i pred =
       Inr (Bound \<lparr>txn_id = uuid4 e i, timestamp = t, amount = a, user_id = py_str e uc,
         city = py_str e cc, category = py_str e gc,
         risk_score = py_int (fl (fl ?fp * 100)),
         status = (if pred \<noteq> 0 then ''Suspicious'' else ''Safe''), flag_type = None,
         flag_reason = None, is_training_data = False\<rparr>)"
    unfolding make_txn_def x k
    using c ok(1) v
    by (simp add: cell_at_add_fraud_type cell_at_valid [OF assms(1) refl])
  with c ok(1) v show ?thesis
    by blast
qed

lemma score_rows_ok:
  assumes "\<forall>j<length preds. \<exists>t. make_txn e df probs nidx (i + j) (preds ! j) = Inr (Bound t)"
  shows "\<exists>ts. score_rows e df probs nidx i preds = Inr (map Bound ts) \<and>
     length ts = length preds \<and>
     (\<forall>j<length preds. make_txn e df probs nidx (i + j) (preds ! j) = Inr (Bound (ts ! j)))"
  using assms
proof (induction preds arbitrary: i)
  case Nil
  then show ?case by simp
next
  case (Cons pred preds)
  from Cons.prems have "\<exists>t. make_txn e df probs nidx (i + 0) ((pred # preds) ! 0) = Inr (Bound t)"
    by blast
  then obtain t where t: "make_txn e df probs nidx i pred = Inr (Bound t)"
    by auto
  have "\<forall>j<length preds. \<exists>t. make_txn e df probs nidx (Suc i + j) (preds ! j) = Inr (Bound t)"
  proof (intro allI impI)
    fix j assume "j < length preds"
    then have "Suc j < length (pred # preds)" by simp
    with Cons.prems
    have "\<exists>t. make_txn e df probs nidx (i + Suc j) ((pred # preds) ! Suc j) = Inr (Bound t)"
      by blast
    then show "\<exists>t. make_txn e df probs nidx (Suc i + j) (preds ! j) = Inr (Bound t)"
      by simp
  qed
  from Cons.IH [OF this] obtain ts where
    ts: "score_rows e df probs nidx (Suc i) preds = Inr (map Bound ts)"
    "length ts = length preds"
    "\<forall>j<length preds. make_txn e df probs nidx (Suc i + j) (preds ! j) = Inr (Bound (ts ! j))"
    by blast
  have "\<forall>j<length (pred # preds).
      make_txn e df probs nidx (i + j) ((pred # preds) ! j) = Inr (Bound ((t # ts) ! j))"
  proof (intro allI impI)
    fix j assume j: "j < length (pred # preds)"
    show "make_txn e df probs nidx (i + j) ((pred # preds) ! j) = Inr (Bound ((t # ts) ! j))"
    proof (cases j)
      case 0
      with t show ?thesis by simp
    next
      case (Suc k)
      with j ts(3) show ?thesis by simp
    qed
  qed
  moreover have "score_rows e df probs nidx i (pred # preds) = Inr (map Bound (t # ts))"
    using t ts(1) by simp
  moreover have "length (t # ts) = length (pred # preds)"
    using ts(2) by simp
  ultimately show ?case
    by blast
qed

lemma bound_prefix_map: "bound_prefix (map Bound ts) = ts"
  by (induction ts) simp_all

lemma bulk_save_committed:
  "commit_error e = None \<Longrightarrow>
     bulk_save e (map Bound ts) tbl = (Inr (), \<lparr>committed = tbl @ ts, written = [], pending = []\<rparr>)"
  by (simp add: bulk_save_def add_all_def commit_def bound_prefix_map)

lemma bulk_save_rolled_back:
  "commit_error e = Some (ex, k) \<Longrightarrow>
     bulk_save e (map Bound ts) tbl =
       (Inl (HTTPException 500 (''Database error: '' @ str_exc ex)),
        \<lparr>committed = tbl, written = [], pending = []\<rparr>)"
  by (simp add: bulk_save_def add_all_def commit_def rollback_def bound_prefix_map)

text \<open>
  C4. For an accepted upload of valid rows, where \<open>preprocess_data\<close> returns and the
  pipeline returns one label and one probability vector (one probability per class) per
  row, the loop builds exactly one record per row, in row order: the record at position
  \<open>i\<close> has the \<open>i\<close>-th generated id, the timestamp, amount, user, city and category
  converted from the cells of row \<open>i\<close>, the status of label \<open>i\<close> and as risk score the
  integer of the binary64 product for probability vector \<open>i\<close>. If the commit succeeds,
  the table is the old table followed by all these records and the response counts them;
  if the commit raises, after any number of rows written, the handler rolls back and fails
  with status 500, the table is the old table and no written row is left in an open
  transaction.
\<close>

theorem batch_persisted_atomically:
  assumes "endswith (filename f) ''.csv''" and "model_exists e" and "joblib_load e = Some pl"
    and "read_csv e (file_content f) = Some df" and "missing_cols df = []"
    and "\<forall>r\<in>set (rows df). valid_row e r"
    and "preprocess_data e (add_fraud_type df) = Inr fs"
    and "predict pl fs = Inr preds" and "predict_proba pl fs = Inr probas"
    and "length preds = length (rows df)" and "length probas = length (rows df)"
    and "\<forall>pr\<in>set probas. length pr = length (classes pl) \<and> (\<forall>p\<in>set pr. 0 \<le> p \<and> p \<le> 1)"
  shows "\<exists>new_txns. length new_txns = length (rows df) \<and>
     (\<forall>i<length (rows df). \<exists>tc ac uc cc gc t a.
        (rows df ! i) ''Timestamp'' = Some tc \<and> to_datetime e tc = Inr (At t) \<and>
        (rows df ! i) ''Amount'' = Some ac \<and> py_float e ac = Inr a \<and>
        (rows df ! i) ''UserID'' = Some uc \<and> (rows df ! i) ''City'' = Some cc \<and>
        (rows df ! i) ''Category'' = Some gc \<and>
        new_txns ! i =
          \<lparr>txn_id = uuid4 e i, timestamp = t, amount = a, user_id = py_str e uc,
           city = py_str e cc, category = py_str e gc,
           risk_score =
             py_int (fl (fl (if 0 \<in> set (classes pl)
                             then 1 - probas ! i ! index (classes pl) 0 else 1) * 100)),
           status = (if preds ! i \<noteq> 0 then ''Suspicious'' else ''Safe''), flag_type = None,
           flag_reason = None, is_training_data = False\<rparr>) \<and>
     (commit_error e = None \<longrightarrow>
        upload_csv e f s =
          (Inr \<lparr>success = True, message = ''File processed and transactions stored.'',
                rowsProcessed = length (rows df)\<rparr>,
           s\<lparr>loads := loads s + 1, predicts := predicts s + 1, db := db s @ new_txns,
             uncommitted := []\<rparr>)) \<and>
     (\<forall>ex k. commit_error e = Some (ex, k) \<longrightarrow>
        upload_csv e f s =
          (Inl (HTTPException 500 (''Database error: '' @ str_exc ex)),
           s\<lparr>loads := loads s + 1, predicts := predicts s + 1, db := db s,
             uncommitted := []\<rparr>))"
proof -
  let ?df = "add_fraud_type df"
  let ?n = "normal_idx_of (classes pl)"
  have row: "\<exists>tc ac uc cc gc t a.
     (rows df ! i) ''Timestamp'' = Some tc \<and> to_datetime e tc = Inr (At t) \<and>
     (rows df ! i) ''Amount'' = Some ac \<and> py_float e ac = Inr a \<and>
     (rows df ! i) ''UserID'' = Some uc \<and> (rows df ! i) ''City'' = Some cc \<and>
     (rows df ! i) ''Category'' = Some gc \<and>
     make_txn e ?df probas ?n i (preds ! i) =
       Inr (Bound \<lparr>txn_id = uuid4 e i, timestamp = t, amount = a, user_id = py_str e uc,
         city = py_str e cc, category = py_str e gc,
         risk_score =
           py_int (fl (fl (if 0 \<in> set (classes pl)
                           then 1 - probas ! i ! index (classes pl) 0 else 1) * 100)),
         status = (if preds ! i \<noteq> 0 then ''Suspicious'' else ''Safe''), flag_type = None,
         flag_reason = None, is_training_data = False\<rparr>)"
    if "i < length (rows df)" for i
  proof -
    from that assms(6) have v: "valid_row e (rows df ! i)" by simp
    from that assms(11) have p: "i < length probas" by simp
    then have "probas ! i \<in> set probas"
      by simp
    with assms(12) have l: "length (probas ! i) = length (classes pl)"
      and b: "\<forall>p\<in>set (probas ! i). 0 \<le> p \<and> p \<le> 1"
      by blast+
    from make_txn_valid [OF that v p l b] show ?thesis .
  qed
  have "\<forall>j<length preds. \<exists>t. make_txn e ?df probas ?n (0 + j) (preds ! j) = Inr (Bound t)"
  proof (intro allI impI)
    fix j assume "j < length preds"
    with assms(10) have "j < length (rows df)" by simp
    from row [OF this] show "\<exists>t. make_txn e ?df probas ?n (0 + j) (preds ! j) = Inr (Bound t)"
      by auto
  qed
  from score_rows_ok [OF this] obtain ts where
    ts: "score_rows e ?df probas ?n 0 preds = Inr (map Bound ts)"
    "length ts = length preds"
    "\<forall>j<length preds. make_txn e ?df probas ?n (0 + j) (preds ! j) = Inr (Bound (ts ! j))"
    by blast
  have m: "model_block pl fs = Inr (preds, probas, ?n)"
    using assms(8,9) by (simp add: model_block_def)
  have fields: "\<forall>i<length (rows df). \<exists>tc ac uc cc gc t a.
        (rows df ! i) ''Timestamp'' = Some tc \<and> to_datetime e tc = Inr (At t) \<and>
        (rows df ! i) ''Amount'' = Some ac \<and> py_float e ac = Inr a \<and>
        (rows df ! i) ''UserID'' = Some uc \<and> (rows df ! i) ''City'' = Some cc \<and>
        (rows df ! i) ''Category'' = Some gc \<and>
        ts ! i =
          \<lparr>txn_id = uuid4 e i, timestamp = t, amount = a, user_id = py_str e uc,
           city = py_str e cc, category = py_str e gc,
           risk_score =
             py_int (fl (fl (if 0 \<in> set (classes pl)
                             then 1 - probas ! i ! index (classes pl) 0 else 1) * 100)),
           status = (if preds ! i \<noteq> 0 then ''Suspicious'' else ''Safe''), flag_type = None,
           flag_reason = None, is_training_data = False\<rparr>"
  proof (intro allI impI)
    fix i assume i: "i < length (rows df)"
    with ts(3) assms(10) have k: "make_txn e ?df probas ?n i (preds ! i) = Inr (Bound (ts ! i))"
      by simp
    from row [OF i] show "\<exists>tc ac uc cc gc t a.
        (rows df ! i) ''Timestamp'' = Some tc \<and> to_datetime e tc = Inr (At t) \<and>
        (rows df ! i) ''Amount'' = Some ac \<and> py_float e ac = Inr a \<and>
        (rows df ! i) ''UserID'' = Some uc \<and> (rows df ! i) ''City'' = Some cc \<and>
        (rows df ! i) ''Category'' = Some gc \<and>
        ts ! i =
          \<lparr>txn_id = uuid4 e i, timestamp = t, amount = a, user_id = py_str e uc,
           city = py_str e cc, category = py_str e gc,
           risk_score =
             py_int (fl (fl (if 0 \<in> set (classes pl)
                             then 1 - probas ! i ! index (classes pl) 0 else 1) * 100)),
           status = (if preds ! i \<noteq> 0 then ''Suspicious'' else ''Safe''), flag_type = None,
           flag_reason = None, is_training_data = False\<rparr>"
      unfolding k by (elim exE conjE) (intro exI conjI; (assumption | simp))
  qed
  have ok: "commit_error e = None \<longrightarrow>
        upload_csv e f s =
          (Inr \<lparr>success = True, message = ''File processed and transactions stored.'',
                rowsProcessed = length (rows df)\<rparr>,
           s\<lparr>loads := loads s + 1, predicts := predicts s + 1, db := db s @ ts,
             uncommitted := []\<rparr>)"
    using assms(1-5,7,10) m ts(1,2)
    by (simp add: upload_csv_def bulk_save_committed)
  have ko: "\<forall>ex k. commit_error e = Some (ex, k) \<longrightarrow>
        upload_csv e f s =
          (Inl (HTTPException 500 (''Database error: '' @ str_exc ex)),
           s\<lparr>loads := loads s + 1, predicts := predicts s + 1, db := db s,
             uncommitted := []\<rparr>)"
    using assms(1-5,7,10) m ts(1,2)
    by (simp add: upload_csv_def bulk_save_rolled_back)
  from ts(2) assms(10) have len: "length ts = length (rows df)" by simp
  show ?thesis
    by (rule exI [of _ ts]) (intro conjI len fields ok ko)
qed

lemma risk_eighth: "py_int (fl (fl (1 / 8) * 100)) = 12"
proof -
  have "fl (1 / 8) = 1 / 8"
    using fl_exact [of "1 / 8" "2 ^ 52" "- 55"] by (simp add: powr_minus divide_simps)
  moreover have "fl (25 / 2) = 25 / 2"
    using fl_exact [of "25 / 2" "25 * 2 ^ 48" "- 49"] by (simp add: powr_minus divide_simps)
  moreover have "(1 / 8 :: real) * 100 = 25 / 2"
    by simp
  ultimately have b: "fl (fl (1 / 8) * 100) = 25 / 2"
    by (simp only:)
  have f: "\<lfloor>25 / 2 :: real\<rfloor> = 12"
    by (rule floor_unique) simp_all
  show ?thesis
    by (simp only: py_int_def b f) simp
qed

lemma risk_three_quarters: "py_int (fl (fl (3 / 4) * 100)) = 75"
proof -
  have "fl (3 / 4) = 3 / 4"
    using fl_exact [of "3 / 4" "3 * 2 ^ 51" "- 53"] by (simp add: powr_minus divide_simps)
  moreover have "fl 75 = 75"
    using fl_exact [of 75 "75 * 2 ^ 46" "- 46"] by (simp add: powr_minus divide_simps)
  moreover have "(3 / 4 :: real) * 100 = 75"
    by simp
  ultimately have "fl (fl (3 / 4) * 100) = 75"
    by (simp only:)
  then show ?thesis
    by (simp add: py_int_def)
qed

lemma ex_upload_hyps:
  assumes "e = ex_env\<lparr>commit_error := ce\<rparr>"
  shows "endswith (filename ex_file) ''.csv''" and "model_exists e"
    and "joblib_load e = Some ex_pipeline" and "read_csv e (file_content ex_file) = Some ex_df"
    and "missing_cols ex_df = []" and "\<forall>r\<in>set (rows ex_df). valid_row e r"
    and "preprocess_data e (add_fraud_type ex_df) = Inr [[10, 2], [20, 2]]"
    and "predict ex_pipeline [[10, 2], [20, 2]] = Inr [0, 1]"
    and "predict_proba ex_pipeline [[10, 2], [20, 2]] = Inr [[7 / 8, 1 / 8], [1 / 4, 3 / 4]]"
    and "length [0, 1 :: int] = length (rows ex_df)"
    and "length [[7 / 8, 1 / 8], [1 / 4, 3 / 4 :: real]] = length (rows ex_df)"
    and "\<forall>pr\<in>set [[7 / 8, 1 / 8], [1 / 4, 3 / 4 :: real]].
      length pr = length (classes ex_pipeline) \<and> (\<forall>p\<in>set pr. 0 \<le> p \<and> p \<le> 1)"
  unfolding assms
  by (simp_all add: ex_env_def ex_file_def endswith_def suffix_def ex_pipeline_def ex_df_def
      missing_cols_def required_cols_def add_fraud_type_def valid_row_def ex_to_datetime_def
      ex_float_def ex_preprocess_def ex_amount_def ex_time_def)

lemma ex_records:
  assumes "e = ex_env\<lparr>commit_error := ce\<rparr>" and "length ts = length (rows ex_df)"
    and "\<forall>i<length (rows ex_df). \<exists>tc ac uc cc gc t a.
        (rows ex_df ! i) ''Timestamp'' = Some tc \<and> to_datetime e tc = Inr (At t) \<and>
        (rows ex_df ! i) ''Amount'' = Some ac \<and> py_float e ac = Inr a \<and>
        (rows ex_df ! i) ''UserID'' = Some uc \<and> (rows ex_df ! i) ''City'' = Some cc \<and>
        (rows ex_df ! i) ''Category'' = Some gc \<and>
        ts ! i =
          \<lparr>txn_id = uuid4 e i, timestamp = t, amount = a, user_id = py_str e uc,
           city = py_str e cc, category = py_str e gc,
           risk_score =
             py_int (fl (fl (if 0 \<in> set (classes ex_pipeline)
                             then 1 - [[7 / 8, 1 / 8], [1 / 4, 3 / 4]] ! i !
                               index (classes ex_pipeline) 0 else 1) * 100)),
           status = (if [0, 1 :: int] ! i \<noteq> 0 then ''Suspicious'' else ''Safe''),
           flag_type = None, flag_reason = None, is_training_data = False\<rparr>"
  shows "ts =
     [\<lparr>txn_id = ''id-0'', timestamp = 1, amount = 10, user_id = ''u1'', city = ''Pune'',
       category = ''Food'', risk_score = 12, status = ''Safe'', flag_type = None,
       flag_reason = None, is_training_data = False\<rparr>,
      \<lparr>txn_id = ''id-1'', timestamp = 2, amount = 20, user_id = ''u2'', city = ''Delhi'',
       category = ''Travel'', risk_score = 75, status = ''Suspicious'', flag_type = None,
       flag_reason = None, is_training_data = False\<rparr>]"
proof -
  have n: "length (rows ex_df) = 2"
    by (simp add: ex_df_def)
  have d: "decimal 0 = ''0''" "decimal 1 = ''1''" "decimal (Suc 0) = ''1''"
    by (simp_all add: decimal.simps char_of_def bit_Suc_0_iff)
  from assms(3) n have "\<exists>tc ac uc cc gc t a.
        (rows ex_df ! 0) ''Timestamp'' = Some tc \<and> to_datetime e tc = Inr (At t) \<and>
        (rows ex_df ! 0) ''Amount'' = Some ac \<and> py_float e ac = Inr a \<and>
        (rows ex_df ! 0) ''UserID'' = Some uc \<and> (rows ex_df ! 0) ''City'' = Some cc \<and>
        (rows ex_df ! 0) ''Category'' = Some gc \<and>
        ts ! 0 =
          \<lparr>txn_id = uuid4 e 0, timestamp = t, amount = a, user_id = py_str e uc,
           city = py_str e cc, category = py_str e gc,
           risk_score =
             py_int (fl (fl (if 0 \<in> set (classes ex_pipeline)
                             then 1 - [[7 / 8, 1 / 8], [1 / 4, 3 / 4]] ! 0 !
                               index (classes ex_pipeline) 0 else 1) * 100)),
           status = (if [0, 1 :: int] ! 0 \<noteq> 0 then ''Suspicious'' else ''Safe''),
           flag_type = None, flag_reason = None, is_training_data = False\<rparr>"
    by (metis zero_less_numeral)
  then have 0: "ts ! 0 =
      \<lparr>txn_id = ''id-0'', timestamp = 1, amount = 10, user_id = ''u1'', city = ''Pune'',
       category = ''Food'', risk_score = 12, status = ''Safe'', flag_type = None,
       flag_reason = None, is_training_data = False\<rparr>"
    unfolding assms(1)
    by (auto simp add: ex_df_def ex_env_def ex_to_datetime_def ex_float_def ex_str_def
        ex_pipeline_def risk_eighth d)
  from assms(3) n have "\<exists>tc ac uc cc gc t a.
        (rows ex_df ! 1) ''Timestamp'' = Some tc \<and> to_datetime e tc = Inr (At t) \<and>
        (rows ex_df ! 1) ''Amount'' = Some ac \<and> py_float e ac = Inr a \<and>
        (rows ex_df ! 1) ''UserID'' = Some uc \<and> (rows ex_df ! 1) ''City'' = Some cc \<and>
        (rows ex_df ! 1) ''Category'' = Some gc \<and>
        ts ! 1 =
          \<lparr>txn_id = uuid4 e 1, timestamp = t, amount = a, user_id = py_str e uc,
           city = py_str e cc, category = py_str e gc,
           risk_score =
             py_int (fl (fl (if 0 \<in> set (classes ex_pipeline)
                             then 1 - [[7 / 8, 1 / 8], [1 / 4, 3 / 4]] ! 1 !
                               index (classes ex_pipeline) 0 else 1) * 100)),
           status = (if [0, 1 :: int] ! 1 \<noteq> 0 then ''Suspicious'' else ''Safe''),
           flag_type = None, flag_reason = None, is_training_data = False\<rparr>"
    by (metis one_less_numeral_iff semiring_norm(76))
  then have 1: "ts ! 1 =
      \<lparr>txn_id = ''id-1'', timestamp = 2, amount = 20, user_id = ''u2'', city = ''Delhi'',
       category = ''Travel'', risk_score = 75, status = ''Suspicious'', flag_type = None,
       flag_reason = None, is_training_data = False\<rparr>"
    unfolding assms(1)
    by (auto simp add: ex_df_def ex_env_def ex_to_datetime_def ex_float_def ex_str_def
        ex_pipeline_def risk_three_quarters d)
  from assms(2) n obtain x y where "ts = [x, y]"
    by (cases ts; cases "tl ts") auto
  with 0 1 show ?thesis
    by simp
qed

theorem batch_persisted_atomically_witness:
  "upload_csv ex_env ex_file ex_empty_state =
     (Inr \<lparr>success = True, message = ''File processed and transactions stored.'',
           rowsProcessed = 2\<rparr>,
      \<lparr>db =
         [\<lparr>txn_id = ''id-0'', timestamp = 1, amount = 10, user_id = ''u1'', city = ''Pune'',
           category = ''Food'', risk_score = 12, status = ''Safe'', flag_type = None,
           flag_reason = None, is_training_data = False\<rparr>,
          \<lparr>txn_id = ''id-1'', timestamp = 2, amount = 20, user_id = ''u2'', city = ''Delhi'',
           category = ''Travel'', risk_score = 75, status = ''Suspicious'', flag_type = None,
           flag_reason = None, is_training_data = False\<rparr>],
       uncommitted = [], loads = 1, decodes = 0, predicts = 1\<rparr>) \<and>
   upload_csv (ex_env\<lparr>commit_error := Some (Exception ''database is locked'', 1)\<rparr>) ex_file
     ex_empty_state =
     (Inl (HTTPException 500 ''Database error: database is locked''),
      \<lparr>db = [], uncommitted = [], loads = 1, decodes = 0, predicts = 1\<rparr>)"
proof -
  let ?e = "ex_env\<lparr>commit_error := Some (Exception ''database is locked'', 1)\<rparr>"
  have e: "ex_env = ex_env\<lparr>commit_error := None\<rparr>"
    by (simp add: ex_env_def)
  have n: "length (rows ex_df) = 2"
    by (simp add: ex_df_def)
  have c: "commit_error ex_env = None"
    "commit_error ?e = Some (Exception ''database is locked'', 1)"
    by (simp_all add: ex_env_def)
  from batch_persisted_atomically [OF ex_upload_hyps [OF e], where s = ex_empty_state]
  obtain ts where l: "length ts = length (rows ex_df)"
    and f: "\<forall>i<length (rows ex_df). \<exists>tc ac uc cc gc t a.
        (rows ex_df ! i) ''Timestamp'' = Some tc \<and> to_datetime ex_env tc = Inr (At t) \<and>
        (rows ex_df ! i) ''Amount'' = Some ac \<and> py_float ex_env ac = Inr a \<and>
        (rows ex_df ! i) ''UserID'' = Some uc \<and> (rows ex_df ! i) ''City'' = Some cc \<and>
        (rows ex_df ! i) ''Category'' = Some gc \<and>
        ts ! i =
          \<lparr>txn_id = uuid4 ex_env i, timestamp = t, amount = a, user_id = py_str ex_env uc,
           city = py_str ex_env cc, category = py_str ex_env gc,
           risk_score =
             py_int (fl (fl (if 0 \<in> set (classes ex_pipeline)
                             then 1 - [[7 / 8, 1 / 8], [1 / 4, 3 / 4]] ! i !
                               index (classes ex_pipeline) 0 else 1) * 100)),
           status = (if [0, 1 :: int] ! i \<noteq> 0 then ''Suspicious'' else ''Safe''),
           flag_type = None, flag_reason = None, is_training_data = False\<rparr>"
    and u: "commit_error ex_env = None \<longrightarrow>
        upload_csv ex_env ex_file ex_empty_state =
          (Inr \<lparr>success = True, message = ''File processed and transactions stored.'',
                rowsProcessed = length (rows ex_df)\<rparr>,
           ex_empty_state\<lparr>loads := loads ex_empty_state + 1,
             predicts := predicts ex_empty_state + 1, db := db ex_empty_state @ ts,
             uncommitted := []\<rparr>)"
    by (elim exE conjE) (rule that; assumption)
  note r = ex_records [OF e l f]
  from u c(1) have 1: "upload_csv ex_env ex_file ex_empty_state =
     (Inr \<lparr>success = True, message = ''File processed and transactions stored.'',
           rowsProcessed = 2\<rparr>,
      \<lparr>db = ts, uncommitted = [], loads = 1, decodes = 0, predicts = 1\<rparr>)"
    by (simp add: n ex_empty_state_def)
  from batch_persisted_atomically [OF ex_upload_hyps
      [where ce = "Some (Exception ''database is locked'', 1)", OF refl],
      where s = ex_empty_state] c(2)
  have 2: "upload_csv ?e ex_file ex_empty_state =
     (Inl (HTTPException 500 ''Database error: database is locked''),
      \<lparr>db = [], uncommitted = [], loads = 1, decodes = 0, predicts = 1\<rparr>)"
    by (auto simp add: ex_empty_state_def)
  from 1 2 show ?thesis
    unfolding r by blast
qed

subsection \<open>Model loading and the routes\<close>

lemma require_token_loads: "loads (snd (require_token dt a s)) = loads s"
  by (simp add: require_token_def Let_def)

lemma require_token_accepted:
  "isl (fst (require_token dt a s)) \<longleftrightarrow> \<not> token_accepted dt a"
  by (simp add: require_token_def token_accepted_def Let_def)

lemma predict_fraud_loads:
  "loads (snd (predict_fraud e txn s)) = loads s + (if model_exists e then 1 else 0)"
  by (simp add: predict_fraud_def Let_def split: option.splits sum.splits pd_datetime.splits)

lemma upload_csv_loads:
  "loads (snd (upload_csv e f s)) =
     loads s + (if endswith (filename f) ''.csv'' \<and> model_exists e then 1 else 0)"
  by (simp add: upload_csv_def Let_def split: option.splits sum.splits prod.splits)

lemma post_upload_loads:
  "loads (snd (post_upload e a f s)) =
     loads s + (if token_accepted (decode_token e) a \<and> endswith (filename f) ''.csv'' \<and>
       model_exists e then 1 else 0)"
proof (cases "require_token (decode_token e) a s")
  case (Pair r s')
  then have l: "loads s' = loads s"
    using require_token_loads [of "decode_token e" a s] by simp
  from Pair have t: "isl r \<longleftrightarrow> \<not> token_accepted (decode_token e) a"
    using require_token_accepted [of "decode_token e" a s] by simp
  show ?thesis
  proof (cases r)
    case (Inl err)
    with Pair l t show ?thesis by (simp add: post_upload_def)
  next
    case (Inr u)
    with Pair l t show ?thesis by (simp add: post_upload_def upload_csv_loads)
  qed
qed

lemma handle_loads:
  "loads (snd (handle e r s)) = loads s + (if reaches_load (e, r) then 1 else 0)"
proof (cases r)
  case (Predict a txn)
  then show ?thesis
    using predict_fraud_loads [of e txn s]
    by (auto simp add: post_predict_def split: prod.splits sum.splits)
next
  case (Upload a f)
  then show ?thesis
    using post_upload_loads [of e a f s]
    by (auto split: prod.splits sum.splits)
qed

lemma serve_loads:
  "loads (snd (serve ers s)) = loads s + length (filter reaches_load ers)"
proof (induction ers arbitrary: s)
  case Nil
  then show ?case by simp
next
  case (Cons er ers)
  obtain r s' where h: "handle (fst er) (snd er) s = (r, s')"
    by (cases "handle (fst er) (snd er) s")
  then have "loads s' = loads s + (if reaches_load er then 1 else 0)"
    using handle_loads [of "fst er" "snd er" s] by simp
  with h Cons.IH [of s'] show ?case
    by (auto split: prod.splits)
qed

lemma model_unavailable_predict:
  assumes "\<not> model_exists e \<or> joblib_load e = None"
  shows "\<exists>d. fst (predict_fraud e txn s) = Inl (HTTPException 500 d) \<and>
     db (snd (predict_fraud e txn s)) = db s \<and>
     predicts (snd (predict_fraud e txn s)) = predicts s"
  using assms by (auto simp add: predict_fraud_def)

lemma model_unavailable_upload:
  assumes "endswith (filename f) ''.csv''" and "\<not> model_exists e \<or> joblib_load e = None"
  shows "\<exists>d. fst (upload_csv e f s) =
       Inl (HTTPException (if model_exists e then 500 else 400) d) \<and>
     db (snd (upload_csv e f s)) = db s \<and>
     predicts (snd (upload_csv e f s)) = predicts s"
  using assms by (auto simp add: upload_csv_def)

text \<open>
  C7, as the code has it. Nothing is cached: every request that gets as far as the scorer
  (for \<open>/predict\<close>: the artifact file exists; for \<open>/upload\<close>: the token is accepted, the
  file name ends in \<open>.csv\<close> and the artifact file exists) calls \<open>joblib.load\<close> exactly
  once, so a sequence of requests loads the artifact once per such request.
\<close>

theorem model_loaded_per_request:
  "loads (snd (handle e r s)) = loads s + (if reaches_load (e, r) then 1 else 0) \<and>
   loads (snd (serve ers s)) = loads s + length (filter reaches_load ers) \<and>
   ((\<forall>er\<in>set ers. reaches_load er) \<longrightarrow> loads (snd (serve ers s)) = loads s + length ers)"
  by (simp add: handle_loads serve_loads)

theorem model_loaded_per_request_witness:
  "loads (snd (serve [(ex_env, Predict [] ex_req), (ex_env, Upload [] ex_file),
     (ex_env, Upload ''Bearer hardcoded-dev-token-for-deployment'' ex_file)] ex_state)) = 2"
  using model_loaded_per_request [of ex_env "Predict [] ex_req" ex_state
      "[(ex_env, Predict [] ex_req), (ex_env, Upload [] ex_file),
        (ex_env, Upload ''Bearer hardcoded-dev-token-for-deployment'' ex_file)]"]
  by (simp add: ex_env_def ex_state_def token_accepted_def startswith_def replace_bearer
      strip_token ex_file_def endswith_def suffix_def)

text \<open>
  The claim as stated fails: two \<open>/predict\<close> requests in one process load the artifact
  twice.
\<close>

theorem model_loaded_twice:
  "loads ex_state = 0 \<and>
   loads (snd (serve [(ex_env, Predict [] ex_req), (ex_env, Predict [] ex_req)] ex_state)) = 2 \<and>
   \<not> loads (snd (serve [(ex_env, Predict [] ex_req), (ex_env, Predict [] ex_req)] ex_state))
       \<le> loads ex_state + 1"
  by (simp only: serve_loads) (simp add: ex_env_def ex_state_def)

lemma ex_predict_eval:
  "predict_fraud ex_env ex_req ex_state =
     (Inr \<lparr>is_fraud = True, resp_risk_score = 75, resp_status = ''Suspicious''\<rparr>,
      ex_state\<lparr>loads := 1, predicts := 1\<rparr>)"
proof -
  have h: "model_exists ex_env" "joblib_load ex_env = Some ex_pipeline"
    "to_datetime ex_env (Text (req_timestamp ex_req)) = Inr (At 3)" "storage_error ex_env = None"
    by (simp_all add: ex_env_def ex_req_def ex_to_datetime_def)
  have p: "preprocess_data ex_env (DataFrame_of (history_data
      (history_rows (tie_order ex_env) (db ex_state) (req_user_id ex_req) 3) ex_req 3)) =
      Inr [[5, 3], [5, 3], [12, 3]]"
    unfolding ex_history
    by (simp add: ex_env_def ex_preprocess_def DataFrame_of_def dict_of_def history_data_def
        history_dict_def current_data_def ex_txn_def ex_req_def ex_amount_def ex_time_def
        ex_float_def ex_to_datetime_def)
  have b: "predict_block ex_pipeline [12, 3] =
      Inr \<lparr>is_fraud = True, resp_risk_score = 75, resp_status = ''Suspicious''\<rparr>"
    by (simp add: predict_block_def ex_pipeline_def getitem_def risk_map_def fraud_prob_single_def)
  show ?thesis
    unfolding predict_fraud_after_query [OF h] p
    by (simp add: iloc_last_nonempty b) (simp add: ex_state_def)
qed

text \<open>
  C6, at the failing input. \<open>POST /predict\<close> without an \<open>Authorization\<close> header returns
  a prediction, while \<open>POST /upload\<close> without it is rejected with status 401.
\<close>

theorem predict_route_unauthenticated:
  "fst (post_predict ex_env [] ex_req ex_state) =
     Inr \<lparr>is_fraud = True, resp_risk_score = 75, resp_status = ''Suspicious''\<rparr> \<and>
   fst (post_upload ex_env [] ex_file ex_state) = Inl (HTTPException 401 ''Missing bearer token'')"
  by (simp add: post_predict_def ex_predict_eval post_upload_def require_token_def
      startswith_def)

text \<open>
  C8, at the failing input. With the artifact file missing, an authenticated \<open>/upload\<close>
  of a \<open>.csv\<close> file fails with status 400, while \<open>/predict\<close> fails with status 500.
\<close>

theorem upload_missing_model_status_400:
  "fst (post_upload (ex_env\<lparr>model_exists := False\<rparr>)
      ''Bearer hardcoded-dev-token-for-deployment'' ex_file ex_state) =
     Inl (HTTPException 400 ''Model not found. Please train using model/train.py first.'') \<and>
   fst (post_predict (ex_env\<lparr>model_exists := False\<rparr>) [] ex_req ex_state) =
     Inl (HTTPException 500 ''Model not found. Please train using train_model.py first.'')"
  by (simp add: post_predict_def post_upload_def require_token_def startswith_def
      replace_bearer strip_token upload_csv_def predict_fraud_def ex_file_def endswith_def
      suffix_def)

end
